theory Spec2Isabelle
  imports Complex_Main "HOL-Library.Char_ord" "HOL-Library.List_Lexorder"
begin

section \<open>Data model\<close>

text \<open>
  A data frame is the ordered list of its rows. The artist CSV has the columns
  \<^verbatim>\<open>artist, trigger, count, url\<close>; the character CSV has
  \<^verbatim>\<open>character, copyright, trigger, count, solo_count, url\<close> and the
  \<^verbatim>\<open>core_tags\<close> column, which \<^verbatim>\<open>_load_csv\<close> always turns into a list.
  Field names carry a prefix where two records would share a name.
\<close>

record artist_row =
  artist :: string
  a_trigger :: string
  a_count :: int
  a_url :: string

record character_row =
  character :: string
  copyright :: string
  c_trigger :: string
  c_count :: int
  solo_count :: int
  c_url :: string
  core_tags :: "string list"

text \<open>
  The section of the configuration dictionary a selector reads. The constructor
  checks every key but \<^verbatim>\<open>mode\<close>, so \<^verbatim>\<open>mode\<close> may be missing: reading
  it then raises \<^verbatim>\<open>KeyError\<close>. The configured weight bounds are floats; they are
  given by their exact values, and the code only compares them.
\<close>

record artist_config =
  ac_min_count :: int
  ac_max_count :: int
  ac_min_weight :: rat
  ac_max_weight :: rat
  ac_min_works :: int
  ac_mode :: "string option"

record character_config =
  cc_min_count :: int
  cc_max_count :: int
  cc_min_weight :: rat
  cc_max_weight :: rat
  cc_min_total_works :: int
  cc_min_solo_works :: int
  cc_mode :: "string option"

text \<open>
  The selector objects. \<^verbatim>\<open>_used_artists\<close> and \<^verbatim>\<open>_used_characters\<close> are
  attributes created on the first call in mode \<^verbatim>\<open>only\<close>: \<open>None\<close> is the object
  without the attribute (\<^verbatim>\<open>hasattr\<close> is false). The data frame is never
  \<^verbatim>\<open>None\<close> in a constructed selector (\<^verbatim>\<open>_load_csv\<close> assigns it or
  raises), so the guards \<^verbatim>\<open>if self.artists_df is None\<close> have no branch here.
\<close>

record artist_selector =
  artists_df :: "artist_row list"
  a_config :: artist_config
  used_artists :: "string set option"

record character_selector =
  characters_df :: "character_row list"
  c_config :: character_config
  used_characters :: "string set option"

text \<open>
  Every \<^verbatim>\<open>raise\<close> of the selection code, and the failures of the libraries
  it calls: the missing \<^verbatim>\<open>mode\<close> key, and the \<^verbatim>\<open>ValueError\<close> of
  \<^verbatim>\<open>DataFrame.sample\<close> for a negative \<^verbatim>\<open>n\<close> or for more rows than the
  frame has (the code never asks for more: it takes the minimum with the length).
\<close>

datatype error =
  MinCountGreaterThanMaxCount
  | MinWeightGreaterThanMaxWeight
  | NoValidRecords
  | InvalidMode
  | MissingModeKey
  | NegativeSampleSize
  | SampleLargerThanPopulation

text \<open>The spec's names for the error kinds.\<close>

definition is_InvalidParameterError :: "error \<Rightarrow> bool" where
  "is_InvalidParameterError e =
     (e = MinCountGreaterThanMaxCount \<or> e = MinWeightGreaterThanMaxWeight)"

definition is_NoEligibleRecordsError :: "error \<Rightarrow> bool" where
  "is_NoEligibleRecordsError e = (e = NoValidRecords)"

text \<open>
  What a call prints: the notice of the automatic reset, and the two reports with their
  counts (total rows, eligible rows, [available rows, size of the used-set,] rows selected).
\<close>

datatype notice =
  ResetNotice
  | RandomReport nat nat int
  | OnlyReport nat nat nat nat int

text \<open>
  A Python float as a weight of a result: a finite double, given by its exact value, or
  one of the special values (\<^verbatim>\<open>random.uniform\<close> returns \<^verbatim>\<open>inf\<close> when
  \<^verbatim>\<open>b - a\<close> overflows).
\<close>

datatype pyfloat = Finite rat | PosInf | NegInf | NaN

section \<open>The random source\<close>

text \<open>
  The code draws from \<^verbatim>\<open>random.randint\<close>, \<^verbatim>\<open>DataFrame.sample\<close> and
  \<^verbatim>\<open>random.uniform\<close>. A call receives what it draws as a value: one number for the
  count and one per sampled row, which the two integer functions below turn into an outcome
  their contract allows (every allowed outcome comes from some number), and the weights.
  A weight is the float \<^verbatim>\<open>round(random.uniform(min_weight, max_weight), 2)\<close>,
  computed in double arithmetic from the state of the generator. That arithmetic is not
  reproduced here: \<open>weight_seed g i min_weight max_weight\<close> is the float the
  \<open>i\<close>-th such expression of the call evaluates to, and every statement below holds
  whatever these floats are.
\<close>

record rng =
  int_seed :: nat
  row_seed :: "nat \<Rightarrow> nat"
  weight_seed :: "nat \<Rightarrow> rat \<Rightarrow> rat \<Rightarrow> pyfloat"

text \<open>\<^verbatim>\<open>random.randint(a, b)\<close>, called with \<open>a \<le> b\<close> only: an integer of \<open>[a, b]\<close>.\<close>

definition randint :: "nat \<Rightarrow> int \<Rightarrow> int \<Rightarrow> int" where
  "randint e a b = a + int (e mod nat (b - a + 1))"

text \<open>
  \<^verbatim>\<open>DataFrame.sample(n=count)\<close>: \<open>n\<close> rows drawn without replacement, in the
  order drawn. Each step removes the drawn row from the rows left.
\<close>

fun sample_rows :: "(nat \<Rightarrow> nat) \<Rightarrow> nat \<Rightarrow> 'r list \<Rightarrow> 'r list" where
  "sample_rows e 0 xs = []"
| "sample_rows e (Suc n) xs =
     (if xs = [] then []
      else let i = e n mod length xs
           in xs ! i # sample_rows e n (take i xs @ drop (Suc i) xs))"

definition df_sample :: "(nat \<Rightarrow> nat) \<Rightarrow> int \<Rightarrow> 'r list \<Rightarrow> error + 'r list" where
  "df_sample e n xs =
     (if n < 0 then Inl NegativeSampleSize
      else if int (length xs) < n then Inl SampleLargerThanPopulation
      else Inr (sample_rows e (nat n) xs))"

section \<open>The statements the two selectors share\<close>

text \<open>
  \<^verbatim>\<open>ArtistSelector\<close> and \<^verbatim>\<open>CharacterSelector\<close> run the same statements on
  rows of different shape. From the emptiness test on they are written once here, over
  any row type, with the row's \<^verbatim>\<open>trigger\<close> column \<open>tr\<close> and the tuple appended
  to \<^verbatim>\<open>result\<close> as \<open>mk row weight\<close>.
\<close>

text \<open>The loop of mode \<^verbatim>\<open>random\<close> over the sampled rows; \<open>i\<close> counts the weights drawn.\<close>

fun random_loop ::
  "('r \<Rightarrow> pyfloat \<Rightarrow> 'res) \<Rightarrow> (nat \<Rightarrow> rat \<Rightarrow> rat \<Rightarrow> pyfloat) \<Rightarrow> rat \<Rightarrow> rat \<Rightarrow> nat
     \<Rightarrow> 'r list \<Rightarrow> 'res list \<Rightarrow> 'res list" where
  "random_loop mk e min_weight max_weight i [] result = result"
| "random_loop mk e min_weight max_weight i (row # rows) result =
     (let weight = e i min_weight max_weight
      in random_loop mk e min_weight max_weight (Suc i) rows (result @ [mk row weight]))"

text \<open>The loop of mode \<^verbatim>\<open>only\<close>, which also adds each trigger to the used-set.\<close>

fun only_loop ::
  "('r \<Rightarrow> string) \<Rightarrow> ('r \<Rightarrow> pyfloat \<Rightarrow> 'res) \<Rightarrow> (nat \<Rightarrow> rat \<Rightarrow> rat \<Rightarrow> pyfloat) \<Rightarrow> rat
     \<Rightarrow> rat \<Rightarrow> nat \<Rightarrow> 'r list \<Rightarrow> 'res list \<times> string set \<Rightarrow> 'res list \<times> string set" where
  "only_loop tr mk e min_weight max_weight i [] acc = acc"
| "only_loop tr mk e min_weight max_weight i (row # rows) (result, used) =
     (let weight = e i min_weight max_weight;
          trigger = tr row
      in only_loop tr mk e min_weight max_weight (Suc i) rows
           (result @ [mk row weight], insert trigger used))"

text \<open>
  Mode \<^verbatim>\<open>random\<close> from \<^verbatim>\<open>if valid.empty\<close> on: \<open>n_total\<close> is the length of the
  whole data frame, \<open>valid\<close> the filtered rows.
\<close>

definition select_random_tail ::
  "('r \<Rightarrow> pyfloat \<Rightarrow> 'res) \<Rightarrow> rng \<Rightarrow> int \<Rightarrow> int \<Rightarrow> rat \<Rightarrow> rat \<Rightarrow> nat \<Rightarrow> 'r list
     \<Rightarrow> (error + 'res list) \<times> notice list" where
  "select_random_tail mk g min_count max_count min_weight max_weight n_total valid =
     (if valid = [] then (Inl NoValidRecords, [])
      else
        let count = min (randint (int_seed g) min_count max_count) (int (length valid))
        in case df_sample (row_seed g) count valid of
             Inl err \<Rightarrow> (Inl err, [])
           | Inr selected \<Rightarrow>
               (Inr (random_loop mk (weight_seed g) min_weight max_weight 0 selected []),
                [RandomReport n_total (length valid) count]))"

text \<open>The rows whose trigger is not in the used-set: \<^verbatim>\<open>df[~df['trigger'].isin(used)]\<close>.\<close>

definition available_rows :: "('r \<Rightarrow> string) \<Rightarrow> string set \<Rightarrow> 'r list \<Rightarrow> 'r list" where
  "available_rows tr used rows = filter (\<lambda>row. tr row \<notin> used) rows"

text \<open>
  Mode \<^verbatim>\<open>only\<close> from the \<^verbatim>\<open>isin\<close> filter on: \<open>all_valid\<close> is the rows
  passing the thresholds, \<open>used\<close> the used-set. The result comes with the used-set as
  the call leaves it, also when the call raises.
\<close>

definition select_only_tail ::
  "('r \<Rightarrow> string) \<Rightarrow> ('r \<Rightarrow> pyfloat \<Rightarrow> 'res) \<Rightarrow> rng \<Rightarrow> int \<Rightarrow> int \<Rightarrow> rat \<Rightarrow> rat \<Rightarrow> nat
     \<Rightarrow> 'r list \<Rightarrow> string set \<Rightarrow> (error + 'res list) \<times> string set \<times> notice list" where
  "select_only_tail tr mk g min_count max_count min_weight max_weight n_total all_valid used =
     (let valid = available_rows tr used all_valid;
          exhausted = (valid = []);
          used1 = (if exhausted then {} else used);
          out1 = (if exhausted then [ResetNotice] else []);
          valid1 = (if exhausted then all_valid else valid)
      in if valid1 = [] then (Inl NoValidRecords, used1, out1)
         else
           let count = min (randint (int_seed g) min_count max_count) (int (length valid1))
           in case df_sample (row_seed g) count valid1 of
                Inl err \<Rightarrow> (Inl err, used1, out1)
              | Inr selected \<Rightarrow>
                  (case only_loop tr mk (weight_seed g) min_weight max_weight 0 selected
                          ([], used1) of
                     (result, used2) \<Rightarrow>
                       (Inr result, used2,
                        out1 @ [OnlyReport n_total (length all_valid) (length valid1)
                                  (card used2) count])))"

text \<open>
  An argument left \<^verbatim>\<open>None\<close> takes the configured value
  (\<^verbatim>\<open>if x is None: x = self.config[...][...]\<close>).
\<close>

definition or_config :: "'a option \<Rightarrow> 'a \<Rightarrow> 'a" where
  "or_config arg configured = (case arg of None \<Rightarrow> configured | Some v \<Rightarrow> v)"

text \<open>The tokens in the used-set: none while the attribute does not exist.\<close>

definition used_tokens :: "string set option \<Rightarrow> string set" where
  "used_tokens u = (case u of None \<Rightarrow> {} | Some v \<Rightarrow> v)"

section \<open>ArtistSelector\<close>

type_synonym artist_result = "string \<times> pyfloat"

definition artist_tuple :: "artist_row \<Rightarrow> pyfloat \<Rightarrow> artist_result" where
  "artist_tuple row weight = (a_trigger row, weight)"

text \<open>The threshold filter \<^verbatim>\<open>df[df['count'] >= min_works]\<close>.\<close>

definition filter_artists :: "artist_row list \<Rightarrow> int \<Rightarrow> artist_row list" where
  "filter_artists df min_works = filter (\<lambda>row. min_works \<le> a_count row) df"

definition select_artists_random ::
  "artist_selector \<Rightarrow> rng \<Rightarrow> int \<Rightarrow> int \<Rightarrow> rat \<Rightarrow> rat \<Rightarrow> int
     \<Rightarrow> (error + artist_result list) \<times> artist_selector \<times> notice list" where
  "select_artists_random s g min_count max_count min_weight max_weight min_works =
     (if max_count < min_count then (Inl MinCountGreaterThanMaxCount, s, [])
      else if max_weight < min_weight then (Inl MinWeightGreaterThanMaxWeight, s, [])
      else
        let valid_artists = filter_artists (artists_df s) min_works
        in case select_random_tail artist_tuple g min_count max_count min_weight max_weight
                  (length (artists_df s)) valid_artists of
             (res, out) \<Rightarrow> (res, s, out))"

definition select_artists_only ::
  "artist_selector \<Rightarrow> rng \<Rightarrow> int \<Rightarrow> int \<Rightarrow> rat \<Rightarrow> rat \<Rightarrow> int
     \<Rightarrow> (error + artist_result list) \<times> artist_selector \<times> notice list" where
  "select_artists_only s0 g min_count max_count min_weight max_weight min_works =
     (let s = (case used_artists s0 of
                 None \<Rightarrow> s0\<lparr>used_artists := Some {}\<rparr>
               | Some u \<Rightarrow> s0)
      in if max_count < min_count then (Inl MinCountGreaterThanMaxCount, s, [])
         else if max_weight < min_weight then (Inl MinWeightGreaterThanMaxWeight, s, [])
         else
           let all_valid_artists = filter_artists (artists_df s) min_works
           in case select_only_tail a_trigger artist_tuple g min_count max_count
                     min_weight max_weight (length (artists_df s)) all_valid_artists
                     (used_tokens (used_artists s)) of
                (res, used', out) \<Rightarrow> (res, s\<lparr>used_artists := Some used'\<rparr>, out))"

text \<open>
  \<^verbatim>\<open>select_artists\<close>: an argument left \<^verbatim>\<open>None\<close> takes the configured value;
  \<^verbatim>\<open>mode\<close> is assigned from the configuration whatever was passed.
\<close>

definition select_artists ::
  "artist_selector \<Rightarrow> rng \<Rightarrow> int option \<Rightarrow> int option \<Rightarrow> rat option \<Rightarrow> rat option
     \<Rightarrow> int option \<Rightarrow> string option
     \<Rightarrow> (error + artist_result list) \<times> artist_selector \<times> notice list" where
  "select_artists s g min_count max_count min_weight max_weight min_works mode =
     (let min_count = or_config min_count (ac_min_count (a_config s));
          max_count = or_config max_count (ac_max_count (a_config s));
          min_weight = or_config min_weight (ac_min_weight (a_config s));
          max_weight = or_config max_weight (ac_max_weight (a_config s));
          min_works = or_config min_works (ac_min_works (a_config s))
      in case ac_mode (a_config s) of
           None \<Rightarrow> (Inl MissingModeKey, s, [])
         | Some mode \<Rightarrow>
             if mode = ''random'' then
               select_artists_random s g min_count max_count min_weight max_weight min_works
             else if mode = ''only'' then
               select_artists_only s g min_count max_count min_weight max_weight min_works
             else (Inl InvalidMode, s, []))"

definition reset_used_artists :: "artist_selector \<Rightarrow> artist_selector" where
  "reset_used_artists s =
     (case used_artists s of
        None \<Rightarrow> s
      | Some u \<Rightarrow> s\<lparr>used_artists := Some {}\<rparr>)"

section \<open>CharacterSelector\<close>

type_synonym character_result = "string \<times> pyfloat \<times> string list"

definition character_tuple :: "character_row \<Rightarrow> pyfloat \<Rightarrow> character_result" where
  "character_tuple row weight = (c_trigger row, weight, core_tags row)"

text \<open>
  The threshold filter, then the copyright filter when \<^verbatim>\<open>copyright_filter\<close> is
  truthy (neither \<^verbatim>\<open>None\<close> nor an empty list).
\<close>

definition filter_characters ::
  "character_row list \<Rightarrow> int \<Rightarrow> int \<Rightarrow> string list option \<Rightarrow> character_row list" where
  "filter_characters df min_total_works min_solo_works copyright_filter =
     (let valid = filter (\<lambda>row. min_total_works \<le> c_count row \<and>
                                min_solo_works \<le> solo_count row) df
      in case copyright_filter of
           None \<Rightarrow> valid
         | Some cs \<Rightarrow>
             if cs = [] then valid
             else filter (\<lambda>row. copyright row \<in> set cs) valid)"

definition select_characters_random ::
  "character_selector \<Rightarrow> rng \<Rightarrow> int \<Rightarrow> int \<Rightarrow> rat \<Rightarrow> rat \<Rightarrow> int \<Rightarrow> int
     \<Rightarrow> string list option
     \<Rightarrow> (error + character_result list) \<times> character_selector \<times> notice list" where
  "select_characters_random s g min_count max_count min_weight max_weight
       min_total_works min_solo_works copyright_filter =
     (if max_count < min_count then (Inl MinCountGreaterThanMaxCount, s, [])
      else if max_weight < min_weight then (Inl MinWeightGreaterThanMaxWeight, s, [])
      else
        let valid_characters =
              filter_characters (characters_df s) min_total_works min_solo_works
                copyright_filter
        in case select_random_tail character_tuple g min_count max_count min_weight
                  max_weight (length (characters_df s)) valid_characters of
             (res, out) \<Rightarrow> (res, s, out))"

definition select_characters_only ::
  "character_selector \<Rightarrow> rng \<Rightarrow> int \<Rightarrow> int \<Rightarrow> rat \<Rightarrow> rat \<Rightarrow> int \<Rightarrow> int
     \<Rightarrow> string list option
     \<Rightarrow> (error + character_result list) \<times> character_selector \<times> notice list" where
  "select_characters_only s0 g min_count max_count min_weight max_weight
       min_total_works min_solo_works copyright_filter =
     (let s = (case used_characters s0 of
                 None \<Rightarrow> s0\<lparr>used_characters := Some {}\<rparr>
               | Some u \<Rightarrow> s0)
      in if max_count < min_count then (Inl MinCountGreaterThanMaxCount, s, [])
         else if max_weight < min_weight then (Inl MinWeightGreaterThanMaxWeight, s, [])
         else
           let all_valid_characters =
                 filter_characters (characters_df s) min_total_works min_solo_works
                   copyright_filter
           in case select_only_tail c_trigger character_tuple g min_count max_count
                     min_weight max_weight (length (characters_df s)) all_valid_characters
                     (used_tokens (used_characters s)) of
                (res, used', out) \<Rightarrow> (res, s\<lparr>used_characters := Some used'\<rparr>, out))"

definition select_characters ::
  "character_selector \<Rightarrow> rng \<Rightarrow> int option \<Rightarrow> int option \<Rightarrow> rat option \<Rightarrow> rat option
     \<Rightarrow> int option \<Rightarrow> int option \<Rightarrow> string list option \<Rightarrow> string option
     \<Rightarrow> (error + character_result list) \<times> character_selector \<times> notice list" where
  "select_characters s g min_count max_count min_weight max_weight min_total_works
       min_solo_works copyright_filter mode =
     (let min_count = or_config min_count (cc_min_count (c_config s));
          max_count = or_config max_count (cc_max_count (c_config s));
          min_weight = or_config min_weight (cc_min_weight (c_config s));
          max_weight = or_config max_weight (cc_max_weight (c_config s));
          min_total_works =
            or_config min_total_works (cc_min_total_works (c_config s));
          min_solo_works =
            or_config min_solo_works (cc_min_solo_works (c_config s))
      in case cc_mode (c_config s) of
           None \<Rightarrow> (Inl MissingModeKey, s, [])
         | Some mode \<Rightarrow>
             if mode = ''random'' then
               select_characters_random s g min_count max_count min_weight max_weight
                 min_total_works min_solo_works copyright_filter
             else if mode = ''only'' then
               select_characters_only s g min_count max_count min_weight max_weight
                 min_total_works min_solo_works copyright_filter
             else (Inl InvalidMode, s, []))"

definition reset_used_characters :: "character_selector \<Rightarrow> character_selector" where
  "reset_used_characters s =
     (case used_characters s of
        None \<Rightarrow> s
      | Some u \<Rightarrow> s\<lparr>used_characters := Some {}\<rparr>)"






section \<open>Notions the statements use\<close>

text \<open>
  The rows a call in mode \<^verbatim>\<open>only\<close> draws from: the available rows, or all the
  eligible rows when none is available.
\<close>

definition only_pool :: "('r \<Rightarrow> string) \<Rightarrow> string set \<Rightarrow> 'r list \<Rightarrow> 'r list" where
  "only_pool tr used all_valid =
     (if available_rows tr used all_valid = [] then all_valid
      else available_rows tr used all_valid)"

text \<open>The number of rows requested from \<^verbatim>\<open>sample\<close>: \<^verbatim>\<open>min(random.randint(min_count, max_count), len(pool))\<close>.\<close>

definition draw_count :: "rng \<Rightarrow> int \<Rightarrow> int \<Rightarrow> 'r list \<Rightarrow> int" where
  "draw_count g min_count max_count pool =
     min (randint (int_seed g) min_count max_count) (int (length pool))"

section \<open>Scenarios\<close>

text \<open>
  The data of the spec's scenarios: five artists with work counts 10, 0, 5, 20 and 1, of
  which three reach \<open>min_works = 5\<close>; two artist rows that share a trigger; three
  characters of two copyrights. The random source is a fixed one.
\<close>

definition scenario_artists :: "artist_row list" where
  "scenario_artists =
     [\<lparr>artist = ''a'', a_trigger = ''ta'', a_count = 10, a_url = ''u''\<rparr>,
      \<lparr>artist = ''b'', a_trigger = ''tb'', a_count = 0, a_url = ''u''\<rparr>,
      \<lparr>artist = ''c'', a_trigger = ''tc'', a_count = 5, a_url = ''u''\<rparr>,
      \<lparr>artist = ''d'', a_trigger = ''td'', a_count = 20, a_url = ''u''\<rparr>,
      \<lparr>artist = ''e'', a_trigger = ''te'', a_count = 1, a_url = ''u''\<rparr>]"

definition scenario_artist_config :: "string \<Rightarrow> artist_config" where
  "scenario_artist_config m =
     \<lparr>ac_min_count = 2, ac_max_count = 2, ac_min_weight = 1 / 2, ac_max_weight = 1,
      ac_min_works = 5, ac_mode = Some m\<rparr>"

definition scenario_artist_selector :: artist_selector where
  "scenario_artist_selector =
     \<lparr>artists_df = scenario_artists, a_config = scenario_artist_config ''only'',
      used_artists = None\<rparr>"

definition twin_artists :: "artist_row list" where
  "twin_artists =
     [\<lparr>artist = ''a'', a_trigger = ''same'', a_count = 10, a_url = ''u''\<rparr>,
      \<lparr>artist = ''b'', a_trigger = ''same'', a_count = 12, a_url = ''v''\<rparr>]"

definition twin_artist_selector :: artist_selector where
  "twin_artist_selector =
     \<lparr>artists_df = twin_artists, a_config = scenario_artist_config ''random'',
      used_artists = None\<rparr>"

definition scenario_characters :: "character_row list" where
  "scenario_characters =
     [\<lparr>character = ''p'', copyright = ''y'', c_trigger = ''tp'', c_count = 10,
       solo_count = 5, c_url = ''u'', core_tags = [''hat'', ''cape'']\<rparr>,
      \<lparr>character = ''q'', copyright = ''x'', c_trigger = ''tq'', c_count = 7,
       solo_count = 3, c_url = ''u'', core_tags = []\<rparr>,
      \<lparr>character = ''r'', copyright = ''y'', c_trigger = ''tr'', c_count = 2,
       solo_count = 0, c_url = ''u'', core_tags = [''bow'']\<rparr>]"

definition scenario_character_config :: "string \<Rightarrow> character_config" where
  "scenario_character_config m =
     \<lparr>cc_min_count = 1, cc_max_count = 2, cc_min_weight = 1 / 2, cc_max_weight = 1,
      cc_min_total_works = 5, cc_min_solo_works = 1, cc_mode = Some m\<rparr>"

definition scenario_character_selector :: character_selector where
  "scenario_character_selector =
     \<lparr>characters_df = scenario_characters, c_config = scenario_character_config ''only'',
      used_characters = None\<rparr>"

text \<open>The character scenario with the configured mode \<^verbatim>\<open>random\<close>.\<close>

definition random_character_selector :: character_selector where
  "random_character_selector =
     \<lparr>characters_df = scenario_characters, c_config = scenario_character_config ''random'',
      used_characters = None\<rparr>"

text \<open>Selectors in mode \<^verbatim>\<open>only\<close> whose used-set holds every token eligible in the scenario.\<close>

definition used_up_artist_selector :: artist_selector where
  "used_up_artist_selector =
     \<lparr>artists_df = scenario_artists, a_config = scenario_artist_config ''only'',
      used_artists = Some {''ta'', ''tc'', ''td''}\<rparr>"

definition used_up_character_selector :: character_selector where
  "used_up_character_selector =
     \<lparr>characters_df = scenario_characters, c_config = scenario_character_config ''only'',
      used_characters = Some {''tp'', ''tq''}\<rparr>"


text \<open>Selectors whose configuration has no mode, or a mode that is neither of the two.\<close>

definition modeless_artist_selector :: artist_selector where
  "modeless_artist_selector =
     \<lparr>artists_df = scenario_artists,
      a_config = (scenario_artist_config ''only'')\<lparr>ac_mode := None\<rparr>,
      used_artists = None\<rparr>"

definition odd_mode_artist_selector :: artist_selector where
  "odd_mode_artist_selector =
     \<lparr>artists_df = scenario_artists, a_config = scenario_artist_config ''Random'',
      used_artists = None\<rparr>"

definition modeless_character_selector :: character_selector where
  "modeless_character_selector =
     \<lparr>characters_df = scenario_characters,
      c_config = (scenario_character_config ''only'')\<lparr>cc_mode := None\<rparr>,
      used_characters = None\<rparr>"

definition odd_mode_character_selector :: character_selector where
  "odd_mode_character_selector =
     \<lparr>characters_df = scenario_characters, c_config = scenario_character_config ''Random'',
      used_characters = None\<rparr>"

definition scenario_rng :: rng where
  "scenario_rng =
     \<lparr>int_seed = 0, row_seed = (\<lambda>n. 0),
      weight_seed = (\<lambda>n lo hi. Finite (if n = 0 then 1 / 2 else if n = 1 then 31 / 50
                                      else 3 / 4))\<rparr>"

section \<open>Sequences of calls\<close>

text \<open>
  Calls made one after the other on one selector: each call starts in the state the call
  before left, also when that call raised. \<open>step\<close> is the call, a function from the
  state and the arguments of the call to its result, the state after and its output.
\<close>

fun run_calls ::
  "('s \<Rightarrow> 'c \<Rightarrow> 'o \<times> 's \<times> notice list) \<Rightarrow> 's \<Rightarrow> 'c list \<Rightarrow> ('o \<times> 's \<times> notice list) list"
  where
  "run_calls step s [] = []"
| "run_calls step s (c # cs) =
     (case step s c of (res, s', out) \<Rightarrow> (res, s', out) # run_calls step s' cs)"

text \<open>The state in which call number \<open>k\<close> of the sequence starts.\<close>

definition state_before ::
  "('s \<Rightarrow> 'c \<Rightarrow> 'o \<times> 's \<times> notice list) \<Rightarrow> 's \<Rightarrow> 'c list \<Rightarrow> nat \<Rightarrow> 's" where
  "state_before step s cs k =
     (if k = 0 then s else fst (snd (run_calls step s cs ! (k - 1))))"

text \<open>
  What one call does to the used-set, in terms of the tokens \<open>U\<close> of the used-set of a
  state and the tokens \<open>T\<close> of a result: without a reset notice the result avoids
  the used-set and is added to it; with one, the used-set becomes the result.
\<close>

definition tracks_used ::
  "('s \<Rightarrow> 'c \<Rightarrow> 'o \<times> 's \<times> notice list) \<Rightarrow> ('s \<Rightarrow> string set) \<Rightarrow> ('o \<Rightarrow> string set) \<Rightarrow> bool"
  where
  "tracks_used step U T =
     (\<forall>s c. (ResetNotice \<notin> set (snd (snd (step s c))) \<longrightarrow>
               T (fst (step s c)) \<inter> U s = {} \<and>
               U (fst (snd (step s c))) = U s \<union> T (fst (step s c))) \<and>
            (ResetNotice \<in> set (snd (snd (step s c))) \<longrightarrow>
               U (fst (snd (step s c))) = T (fst (step s c))))"

text \<open>The arguments of a call in mode \<^verbatim>\<open>only\<close>, with the random source it draws from.\<close>

type_synonym artist_call = "rng \<times> int \<times> int \<times> rat \<times> rat \<times> int"

type_synonym character_call =
  "rng \<times> int \<times> int \<times> rat \<times> rat \<times> int \<times> int \<times> string list option"

definition artist_only_call ::
  "artist_selector \<Rightarrow> artist_call
     \<Rightarrow> (error + artist_result list) \<times> artist_selector \<times> notice list" where
  "artist_only_call s c =
     (case c of (g, min_count, max_count, min_weight, max_weight, min_works) \<Rightarrow>
        select_artists_only s g min_count max_count min_weight max_weight min_works)"

definition character_only_call ::
  "character_selector \<Rightarrow> character_call
     \<Rightarrow> (error + character_result list) \<times> character_selector \<times> notice list" where
  "character_only_call s c =
     (case c of (g, min_count, max_count, min_weight, max_weight, min_total_works,
                 min_solo_works, copyright_filter) \<Rightarrow>
        select_characters_only s g min_count max_count min_weight max_weight
          min_total_works min_solo_works copyright_filter)"

text \<open>The tokens a call returned: none when it raised.\<close>

definition result_tokens :: "error + (string \<times> 'b) list \<Rightarrow> string set" where
  "result_tokens r = (case r of Inl e \<Rightarrow> {} | Inr rows \<Rightarrow> fst ` set rows)"

text \<open>The tokens of the rows eligible for a call: its eligible pool.\<close>

definition artist_call_eligible :: "artist_selector \<Rightarrow> artist_call \<Rightarrow> string set" where
  "artist_call_eligible s c =
     (case c of (g, min_count, max_count, min_weight, max_weight, min_works) \<Rightarrow>
        a_trigger ` set (filter_artists (artists_df s) min_works))"

definition character_call_eligible ::
  "character_selector \<Rightarrow> character_call \<Rightarrow> string set" where
  "character_call_eligible s c =
     (case c of (g, min_count, max_count, min_weight, max_weight, min_total_works,
                 min_solo_works, copyright_filter) \<Rightarrow>
        c_trigger ` set (filter_characters (characters_df s) min_total_works
                           min_solo_works copyright_filter))"

text \<open>The spec's scenario of two calls with \<open>min_count = max_count = 2\<close> on a pool of two.\<close>

definition two_artist_calls :: "artist_call list" where
  "two_artist_calls =
     [(scenario_rng, 2, 2, 1 / 2, 1, 10), (scenario_rng, 2, 2, 1 / 2, 1, 10)]"

definition two_character_calls :: "character_call list" where
  "two_character_calls =
     [(scenario_rng, 2, 2, 1 / 2, 1, 5, 1, None), (scenario_rng, 2, 2, 1 / 2, 1, 5, 1, None)]"

section \<open>The random source keeps its contracts\<close>

lemma randint_lower: "a \<le> b \<Longrightarrow> a \<le> randint e a b"
  by (simp add: randint_def)

lemma randint_upper: "a \<le> b \<Longrightarrow> randint e a b \<le> b"
proof -
  assume ab: "a \<le> b"
  then have pos: "0 < nat (b - a + 1)" by simp
  have "e mod nat (b - a + 1) < nat (b - a + 1)" using pos by (rule mod_less_divisor)
  then have "int (e mod nat (b - a + 1)) < b - a + 1" using ab by linarith
  then show ?thesis by (simp add: randint_def)
qed

lemma length_sample_rows: "length (sample_rows e n xs) = min n (length xs)"
proof (induction n arbitrary: xs)
  case 0 show ?case by simp
next
  case (Suc n)
  show ?case
  proof (cases "xs = []")
    case True then show ?thesis by simp
  next
    case False
    let ?i = "e n mod length xs"
    have i: "?i < length xs" using False by simp
    have "length (take ?i xs @ drop (Suc ?i) xs) = length xs - 1"
      using i by (simp add: min_def)
    then have "length (sample_rows e n (take ?i xs @ drop (Suc ?i) xs)) = min n (length xs - 1)"
      using Suc.IH [of "take ?i xs @ drop (Suc ?i) xs"] by simp
    moreover obtain m where "length xs = Suc m" using False by (cases xs) auto
    ultimately show ?thesis using False by (simp add: Let_def min_def)
  qed
qed

lemma set_sample_rows: "set (sample_rows e n xs) \<subseteq> set xs"
proof (induction n arbitrary: xs)
  case 0 show ?case by simp
next
  case (Suc n)
  show ?case
  proof (cases "xs = []")
    case True then show ?thesis by simp
  next
    case False
    let ?i = "e n mod length xs"
    have i: "?i < length xs" using False by simp
    have rest: "set (take ?i xs @ drop (Suc ?i) xs) \<subseteq> set xs"
      by (auto dest: in_set_takeD in_set_dropD)
    have "set (sample_rows e n (take ?i xs @ drop (Suc ?i) xs)) \<subseteq> set xs"
      using Suc.IH rest by blast
    then show ?thesis using False i by (simp add: Let_def)
  qed
qed

lemma distinct_sample_rows:
  "distinct (map f xs) \<Longrightarrow> distinct (map f (sample_rows e n xs))"
proof (induction n arbitrary: xs)
  case 0 show ?case by simp
next
  case (Suc n)
  show ?case
  proof (cases "xs = []")
    case True then show ?thesis by simp
  next
    case False
    let ?i = "e n mod length xs"
    let ?rest = "take ?i xs @ drop (Suc ?i) xs"
    have i: "?i < length xs" using False by simp
    have xs: "xs = take ?i xs @ xs ! ?i # drop (Suc ?i) xs"
      using i by (rule id_take_nth_drop)
    have "distinct (map f (take ?i xs @ xs ! ?i # drop (Suc ?i) xs))"
      using Suc.prems xs by simp
    then have d: "distinct (map f ?rest)" and nin: "f (xs ! ?i) \<notin> f ` set ?rest"
      by auto
    have "f (xs ! ?i) \<notin> f ` set (sample_rows e n ?rest)"
      using nin set_sample_rows [of e n ?rest] by blast
    moreover have "distinct (map f (sample_rows e n ?rest))"
      using d by (rule Suc.IH)
    ultimately show ?thesis using False by (simp add: Let_def)
  qed
qed

lemma random_loop_append:
  "random_loop mk e lo hi i rows result = result @ random_loop mk e lo hi i rows []"
proof (induction rows arbitrary: i result)
  case Nil show ?case by simp
next
  case (Cons row rows)
  show ?case
    using Cons.IH [of "Suc i" "result @ [mk row (e i lo hi)]"]
          Cons.IH [of "Suc i" "[mk row (e i lo hi)]"]
    by (simp add: Let_def)
qed

lemma length_random_loop:
  "length (random_loop mk e lo hi i rows result) = length result + length rows"
  by (induction rows arbitrary: i result) (simp_all add: Let_def)

lemma only_loop_eq:
  "only_loop tr mk e lo hi i rows (result, used) =
     (random_loop mk e lo hi i rows result, used \<union> tr ` set rows)"
  by (induction rows arbitrary: i result used) (simp_all add: Let_def)

section \<open>The shared statements, case by case\<close>

lemma map_random_loop:
  assumes "\<And>row w. f (mk row w) = h row"
  shows "map f (random_loop mk e lo hi i rows result) = map f result @ map h rows"
  using assms by (induction rows arbitrary: i result) (simp_all add: Let_def)

lemma draw_count_le: "draw_count g a b pool \<le> int (length pool)"
  by (simp add: draw_count_def)

lemma select_random_tail_eq:
  "select_random_tail mk g min_count max_count lo hi n valid =
     (if valid = [] then (Inl NoValidRecords, [])
      else if draw_count g min_count max_count valid < 0 then (Inl NegativeSampleSize, [])
      else (Inr (random_loop mk (weight_seed g) lo hi 0
                   (sample_rows (row_seed g) (nat (draw_count g min_count max_count valid))
                      valid) []),
            [RandomReport n (length valid) (draw_count g min_count max_count valid)]))"
  using draw_count_le [of g min_count max_count valid]
  by (simp add: select_random_tail_def df_sample_def Let_def draw_count_def [symmetric]
     )

lemma only_pool_Nil: "only_pool tr used all_valid = [] \<longleftrightarrow> all_valid = []"
  by (auto simp: only_pool_def available_rows_def)

lemma select_only_tail_eq:
  "select_only_tail tr mk g min_count max_count lo hi n all_valid used =
     (let exhausted = (available_rows tr used all_valid = []);
          pool = only_pool tr used all_valid;
          used1 = (if exhausted then {} else used);
          out1 = (if exhausted then [ResetNotice] else []);
          k = draw_count g min_count max_count pool;
          selected = sample_rows (row_seed g) (nat k) pool
      in if all_valid = [] then (Inl NoValidRecords, {}, [ResetNotice])
         else if k < 0 then (Inl NegativeSampleSize, used1, out1)
         else (Inr (random_loop mk (weight_seed g) lo hi 0 selected []),
               used1 \<union> tr ` set selected,
               out1 @ [OnlyReport n (length all_valid) (length pool)
                         (card (used1 \<union> tr ` set selected)) k]))"
proof (cases "all_valid = []")
  case True
  then show ?thesis
    by (simp add: select_only_tail_def available_rows_def Let_def)
next
  case False
  have le: "draw_count g min_count max_count (only_pool tr used all_valid)
              \<le> int (length (only_pool tr used all_valid))"
    by (rule draw_count_le)
  show ?thesis
  proof (cases "available_rows tr used all_valid = []")
    case True
    then have pool: "only_pool tr used all_valid = all_valid" by (simp add: only_pool_def)
    show ?thesis using False True le
      by (simp add: select_only_tail_def Let_def pool df_sample_def only_loop_eq
          draw_count_def [symmetric])
  next
    case avail: False
    then have pool: "only_pool tr used all_valid = available_rows tr used all_valid"
      by (simp add: only_pool_def)
    show ?thesis using False avail le
      by (simp add: select_only_tail_def Let_def pool df_sample_def only_loop_eq
          draw_count_def [symmetric])
  qed
qed

section \<open>Counts and successful calls\<close>

lemma random_tail_Inr:
  assumes "select_random_tail mk g a b lo hi n valid = (Inr res, out)"
  shows "valid \<noteq> []" and "0 \<le> draw_count g a b valid"
    and "res = random_loop mk (weight_seed g) lo hi 0
                 (sample_rows (row_seed g) (nat (draw_count g a b valid)) valid) []"
  using assms by (simp_all add: select_random_tail_eq split: if_splits)

lemma only_tail_Inr:
  assumes "select_only_tail tr mk g a b lo hi n all_valid used = (Inr res, used', out)"
  shows "all_valid \<noteq> []"
    and "0 \<le> draw_count g a b (only_pool tr used all_valid)"
    and "res = random_loop mk (weight_seed g) lo hi 0
                 (sample_rows (row_seed g)
                    (nat (draw_count g a b (only_pool tr used all_valid)))
                    (only_pool tr used all_valid)) []"
  using assms by (simp_all add: select_only_tail_eq Let_def split: if_splits)

lemma draw_count_bounds:
  assumes "a \<le> b"
  shows "min a (int (length pool)) \<le> draw_count g a b pool"
    and "draw_count g a b pool \<le> b"
  using randint_lower [OF assms, of "int_seed g"] randint_upper [OF assms, of "int_seed g"]
  by (simp_all add: draw_count_def min_def)

lemma length_drawn:
  assumes "0 \<le> draw_count g a b pool"
  shows "int (length (random_loop mk e lo hi 0
                 (sample_rows r (nat (draw_count g a b pool)) pool) [])) =
         draw_count g a b pool"
proof -
  have "nat (draw_count g a b pool) \<le> length pool"
    using draw_count_le [of g a b pool] by linarith
  then show ?thesis using assms
    by (simp add: length_random_loop length_sample_rows)
qed

lemma length_only_pool: "length (only_pool tr used all_valid) \<le> length all_valid"
  by (simp add: only_pool_def available_rows_def)

lemma distinct_only_pool:
  "distinct (map tr all_valid) \<Longrightarrow> distinct (map tr (only_pool tr used all_valid))"
  by (simp add: only_pool_def available_rows_def distinct_map_filter)

lemma set_only_pool: "set (only_pool tr used all_valid) \<subseteq> set all_valid"
  by (auto simp: only_pool_def available_rows_def)

text \<open>What a successful call of each of the four functions returns.\<close>

lemma select_artists_random_Inr:
  assumes "select_artists_random s g a b lo hi mw = (Inr res, s', out)"
  shows "a \<le> b" and "lo \<le> hi" and "s' = s"
    and "select_random_tail artist_tuple g a b lo hi (length (artists_df s))
           (filter_artists (artists_df s) mw) = (Inr res, out)"
  using assms
  by (auto simp: select_artists_random_def Let_def split: if_splits prod.splits)

lemma select_artists_only_Inr:
  assumes "select_artists_only s g a b lo hi mw = (Inr res, s', out)"
  shows "a \<le> b" and "lo \<le> hi"
    and "\<exists>used'. select_only_tail a_trigger artist_tuple g a b lo hi (length (artists_df s))
           (filter_artists (artists_df s) mw) (used_tokens (used_artists s)) =
             (Inr res, used', out) \<and> s' = s\<lparr>used_artists := Some used'\<rparr>"
  using assms
  by (auto simp: select_artists_only_def Let_def used_tokens_def
      split: if_splits prod.splits option.splits)

lemma select_characters_random_Inr:
  assumes "select_characters_random s g a b lo hi mt ms cf = (Inr res, s', out)"
  shows "a \<le> b" and "lo \<le> hi" and "s' = s"
    and "select_random_tail character_tuple g a b lo hi (length (characters_df s))
           (filter_characters (characters_df s) mt ms cf) = (Inr res, out)"
  using assms
  by (auto simp: select_characters_random_def Let_def split: if_splits prod.splits)

lemma select_characters_only_Inr:
  assumes "select_characters_only s g a b lo hi mt ms cf = (Inr res, s', out)"
  shows "a \<le> b" and "lo \<le> hi"
    and "\<exists>used'. select_only_tail c_trigger character_tuple g a b lo hi
           (length (characters_df s)) (filter_characters (characters_df s) mt ms cf)
           (used_tokens (used_characters s)) = (Inr res, used', out) \<and>
           s' = s\<lparr>used_characters := Some used'\<rparr>"
  using assms
  by (auto simp: select_characters_only_def Let_def used_tokens_def
      split: if_splits prod.splits option.splits)

section \<open>Reset\<close>

text \<open>
  C8. \<^verbatim>\<open>reset_used_artists\<close> and \<^verbatim>\<open>reset_used_characters\<close> return the
  selector only (no value, and no error: the functions have no failing branch). After a
  reset the used-set holds no token, whatever it held before; the data frame and the
  configuration are kept. A reset of a selector whose used-set is empty, or was never
  created, returns that selector as it is, and a second reset changes nothing.
\<close>

theorem reset_clears_used_set:
  "used_tokens (used_artists (reset_used_artists s)) = {} \<and>
   artists_df (reset_used_artists s) = artists_df s \<and>
   a_config (reset_used_artists s) = a_config s \<and>
   reset_used_artists (s\<lparr>used_artists := None\<rparr>) = s\<lparr>used_artists := None\<rparr> \<and>
   reset_used_artists (s\<lparr>used_artists := Some {}\<rparr>) = s\<lparr>used_artists := Some {}\<rparr> \<and>
   reset_used_artists (reset_used_artists s) = reset_used_artists s \<and>
   used_tokens (used_characters (reset_used_characters cs)) = {} \<and>
   characters_df (reset_used_characters cs) = characters_df cs \<and>
   c_config (reset_used_characters cs) = c_config cs \<and>
   reset_used_characters (cs\<lparr>used_characters := None\<rparr>) = cs\<lparr>used_characters := None\<rparr> \<and>
   reset_used_characters (cs\<lparr>used_characters := Some {}\<rparr>) =
     cs\<lparr>used_characters := Some {}\<rparr> \<and>
   reset_used_characters (reset_used_characters cs) = reset_used_characters cs"
  by (simp add: reset_used_artists_def reset_used_characters_def used_tokens_def
      split: option.split)

section \<open>Scenario runs\<close>

text \<open>The selectors run on the scenarios; the kernel evaluates each call.\<close>

lemma run_artists_random_2:
  "select_artists_random scenario_artist_selector scenario_rng 2 2 (1 / 2) 1 5 =
     (Inr [(''ta'', Finite (1 / 2)), (''tc'', Finite (31 / 50))], scenario_artist_selector,
      [RandomReport 5 3 2])"
  by code_simp

lemma run_artists_random_5:
  "select_artists_random scenario_artist_selector scenario_rng 5 5 (1 / 2) 1 5 =
     (Inr [(''ta'', Finite (1 / 2)), (''tc'', Finite (31 / 50)), (''td'', Finite (3 / 4))], scenario_artist_selector,
      [RandomReport 5 3 3])"
  by code_simp

lemma run_artists_only_2:
  "select_artists_only scenario_artist_selector scenario_rng 2 2 (1 / 2) 1 5 =
     (Inr [(''ta'', Finite (1 / 2)), (''tc'', Finite (31 / 50))],
      scenario_artist_selector\<lparr>used_artists := Some {''ta'', ''tc''}\<rparr>,
      [OnlyReport 5 3 3 2 2])"
  by code_simp

lemma run_characters_random:
  "select_characters_random scenario_character_selector scenario_rng 1 2 (1 / 2) 1 5 1 None =
     (Inr [(''tp'', Finite (1 / 2), [''hat'', ''cape''])], scenario_character_selector,
      [RandomReport 3 2 1])"
  by code_simp

lemma run_characters_only:
  "select_characters_only scenario_character_selector scenario_rng 1 2 (1 / 2) 1 5 1 None =
     (Inr [(''tp'', Finite (1 / 2), [''hat'', ''cape''])],
      scenario_character_selector\<lparr>used_characters := Some {''tp''}\<rparr>,
      [OnlyReport 3 2 2 1 1])"
  by code_simp

lemma scenario_filter_artists:
  "filter_artists (artists_df scenario_artist_selector) 5 =
     [\<lparr>artist = ''a'', a_trigger = ''ta'', a_count = 10, a_url = ''u''\<rparr>,
      \<lparr>artist = ''c'', a_trigger = ''tc'', a_count = 5, a_url = ''u''\<rparr>,
      \<lparr>artist = ''d'', a_trigger = ''td'', a_count = 20, a_url = ''u''\<rparr>]"
  by (simp add: filter_artists_def scenario_artist_selector_def scenario_artists_def)

lemma scenario_filter_characters:
  "filter_characters (characters_df scenario_character_selector) 5 1 None =
     [\<lparr>character = ''p'', copyright = ''y'', c_trigger = ''tp'', c_count = 10,
       solo_count = 5, c_url = ''u'', core_tags = [''hat'', ''cape'']\<rparr>,
      \<lparr>character = ''q'', copyright = ''x'', c_trigger = ''tq'', c_count = 7,
       solo_count = 3, c_url = ''u'', core_tags = []\<rparr>]"
  by (simp add: filter_characters_def scenario_character_selector_def scenario_characters_def)

section \<open>Length of the result\<close>

text \<open>
  C2 (amended). A successful call returns \<open>min k (length pool)\<close> records for some
  \<open>k\<close> of \<open>[min_count, max_count]\<close>, where \<open>pool\<close> is the rows drawn from:
  the eligible rows in mode \<^verbatim>\<open>random\<close>, and in mode \<^verbatim>\<open>only\<close> the eligible
  rows whose trigger is not in the used-set (all the eligible rows when none is left).
  So the length of the result is at least \<open>min min_count (length pool)\<close>, at most
  \<open>max_count\<close>, at most the size of the pool and at most the number of eligible rows.
  The lower bound \<open>min_count\<close> itself holds only when the pool has \<open>min_count\<close>
  rows: the code clamps the drawn count to the pool.
\<close>

theorem select_length_bounds:
  "(select_artists_random s g a b lo hi mw = (Inr res1, s1, out1) \<longrightarrow>
      min a (int (length (filter_artists (artists_df s) mw))) \<le> int (length res1) \<and>
      int (length res1) \<le> b \<and>
      length res1 \<le> length (filter_artists (artists_df s) mw)) \<and>
   (select_artists_only s g a b lo hi mw = (Inr res2, s2, out2) \<longrightarrow>
      min a (int (length (only_pool a_trigger (used_tokens (used_artists s))
                            (filter_artists (artists_df s) mw)))) \<le> int (length res2) \<and>
      int (length res2) \<le> b \<and>
      length res2 \<le> length (only_pool a_trigger (used_tokens (used_artists s))
                               (filter_artists (artists_df s) mw)) \<and>
      length res2 \<le> length (filter_artists (artists_df s) mw)) \<and>
   (select_characters_random cs g a b lo hi mt ms cf = (Inr res3, s3, out3) \<longrightarrow>
      min a (int (length (filter_characters (characters_df cs) mt ms cf)))
        \<le> int (length res3) \<and>
      int (length res3) \<le> b \<and>
      length res3 \<le> length (filter_characters (characters_df cs) mt ms cf)) \<and>
   (select_characters_only cs g a b lo hi mt ms cf = (Inr res4, s4, out4) \<longrightarrow>
      min a (int (length (only_pool c_trigger (used_tokens (used_characters cs))
                            (filter_characters (characters_df cs) mt ms cf))))
        \<le> int (length res4) \<and>
      int (length res4) \<le> b \<and>
      length res4 \<le> length (only_pool c_trigger (used_tokens (used_characters cs))
                               (filter_characters (characters_df cs) mt ms cf)) \<and>
      length res4 \<le> length (filter_characters (characters_df cs) mt ms cf))"
proof (intro conjI impI)
  assume h: "select_artists_random s g a b lo hi mw = (Inr res1, s1, out1)"
  let ?V = "filter_artists (artists_df s) mw"
  note t = random_tail_Inr [OF select_artists_random_Inr(4) [OF h]]
  have len: "int (length res1) = draw_count g a b ?V"
    using t(3) length_drawn [OF t(2)] by simp
  note bd = draw_count_bounds [OF select_artists_random_Inr(1) [OF h], where pool = ?V and g = g]
  show "min a (int (length ?V)) \<le> int (length res1)" using len bd(1) by simp
  show "int (length res1) \<le> b" using len bd(2) by simp
  show "length res1 \<le> length ?V" using len draw_count_le [of g a b ?V] by linarith
next
  assume h: "select_artists_only s g a b lo hi mw = (Inr res2, s2, out2)"
  let ?V = "filter_artists (artists_df s) mw"
  let ?P = "only_pool a_trigger (used_tokens (used_artists s)) ?V"
  obtain u where tl: "select_only_tail a_trigger artist_tuple g a b lo hi
      (length (artists_df s)) ?V (used_tokens (used_artists s)) = (Inr res2, u, out2)"
    using select_artists_only_Inr(3) [OF h] by blast
  note t = only_tail_Inr [OF tl]
  have len: "int (length res2) = draw_count g a b ?P"
    using t(3) length_drawn [OF t(2)] by simp
  note bd = draw_count_bounds [OF select_artists_only_Inr(1) [OF h], where pool = ?P and g = g]
  show "min a (int (length ?P)) \<le> int (length res2)" using len bd(1) by simp
  show "int (length res2) \<le> b" using len bd(2) by simp
  show le: "length res2 \<le> length ?P" using len draw_count_le [of g a b ?P] by linarith
  show "length res2 \<le> length ?V"
    using le length_only_pool [of a_trigger "used_tokens (used_artists s)" ?V] by linarith
next
  assume h: "select_characters_random cs g a b lo hi mt ms cf = (Inr res3, s3, out3)"
  let ?V = "filter_characters (characters_df cs) mt ms cf"
  note t = random_tail_Inr [OF select_characters_random_Inr(4) [OF h]]
  have len: "int (length res3) = draw_count g a b ?V"
    using t(3) length_drawn [OF t(2)] by simp
  note bd = draw_count_bounds [OF select_characters_random_Inr(1) [OF h], where pool = ?V and g = g]
  show "min a (int (length ?V)) \<le> int (length res3)" using len bd(1) by simp
  show "int (length res3) \<le> b" using len bd(2) by simp
  show "length res3 \<le> length ?V" using len draw_count_le [of g a b ?V] by linarith
next
  assume h: "select_characters_only cs g a b lo hi mt ms cf = (Inr res4, s4, out4)"
  let ?V = "filter_characters (characters_df cs) mt ms cf"
  let ?P = "only_pool c_trigger (used_tokens (used_characters cs)) ?V"
  obtain u where tl: "select_only_tail c_trigger character_tuple g a b lo hi
      (length (characters_df cs)) ?V (used_tokens (used_characters cs)) = (Inr res4, u, out4)"
    using select_characters_only_Inr(3) [OF h] by blast
  note t = only_tail_Inr [OF tl]
  have len: "int (length res4) = draw_count g a b ?P"
    using t(3) length_drawn [OF t(2)] by simp
  note bd = draw_count_bounds [OF select_characters_only_Inr(1) [OF h], where pool = ?P and g = g]
  show "min a (int (length ?P)) \<le> int (length res4)" using len bd(1) by simp
  show "int (length res4) \<le> b" using len bd(2) by simp
  show le: "length res4 \<le> length ?P" using len draw_count_le [of g a b ?P] by linarith
  show "length res4 \<le> length ?V"
    using le length_only_pool [of c_trigger "used_tokens (used_characters cs)" ?V] by linarith
qed

text \<open>The bounds at the scenarios, one call of each of the four functions.\<close>

theorem select_length_bounds_witness:
  "select_artists_random scenario_artist_selector scenario_rng 2 2 (1 / 2) 1 5 =
     (Inr [(''ta'', Finite (1 / 2)), (''tc'', Finite (31 / 50))], scenario_artist_selector,
      [RandomReport 5 3 2]) \<and>
   min 2 (int (length (filter_artists (artists_df scenario_artist_selector) 5)))
     \<le> int (length [(''ta'', Finite (1 / 2)), (''tc'', Finite (31 / 50))]) \<and>
   int (length [(''ta'', Finite (1 / 2)), (''tc'', Finite (31 / 50))]) \<le> 2 \<and>
   length [(''ta'', Finite (1 / 2)), (''tc'', Finite (31 / 50))]
     \<le> length (filter_artists (artists_df scenario_artist_selector) 5) \<and>
   select_artists_only scenario_artist_selector scenario_rng 2 2 (1 / 2) 1 5 =
     (Inr [(''ta'', Finite (1 / 2)), (''tc'', Finite (31 / 50))],
      scenario_artist_selector\<lparr>used_artists := Some {''ta'', ''tc''}\<rparr>,
      [OnlyReport 5 3 3 2 2]) \<and>
   length [(''ta'', Finite (1 / 2)), (''tc'', Finite (31 / 50))]
     \<le> length (only_pool a_trigger (used_tokens (used_artists scenario_artist_selector))
                  (filter_artists (artists_df scenario_artist_selector) 5)) \<and>
   select_characters_random scenario_character_selector scenario_rng 1 2 (1 / 2) 1 5 1 None =
     (Inr [(''tp'', Finite (1 / 2), [''hat'', ''cape''])], scenario_character_selector,
      [RandomReport 3 2 1]) \<and>
   min 1 (int (length (filter_characters (characters_df scenario_character_selector) 5 1 None)))
     \<le> int (length [(''tp'', Finite (1 / 2), [''hat'', ''cape''])]) \<and>
   select_characters_only scenario_character_selector scenario_rng 1 2 (1 / 2) 1 5 1 None =
     (Inr [(''tp'', Finite (1 / 2), [''hat'', ''cape''])],
      scenario_character_selector\<lparr>used_characters := Some {''tp''}\<rparr>,
      [OnlyReport 3 2 2 1 1]) \<and>
   int (length [(''tp'', Finite (1 / 2), [''hat'', ''cape''])]) \<le> 2"
  using select_length_bounds [THEN conjunct1, rule_format, OF run_artists_random_2]
    select_length_bounds [THEN conjunct2, THEN conjunct1, rule_format, OF run_artists_only_2]
    select_length_bounds [THEN conjunct2, THEN conjunct2, THEN conjunct1, rule_format,
      OF run_characters_random]
    select_length_bounds [THEN conjunct2, THEN conjunct2, THEN conjunct2, rule_format,
      OF run_characters_only]
    run_artists_random_2 run_artists_only_2 run_characters_random run_characters_only
  by simp

text \<open>
  C2 as stated fails: with three eligible artists and \<open>min_count = max_count = 5\<close>
  the call succeeds and returns three records, fewer than \<open>min_count\<close>.
\<close>

theorem select_length_counterexample:
  "(5 :: int) \<le> 5 \<and> (1 / 2 :: rat) \<le> 1 \<and>
   fst (select_artists_random scenario_artist_selector scenario_rng 5 5 (1 / 2) 1 5) =
     Inr [(''ta'', Finite (1 / 2)), (''tc'', Finite (31 / 50)), (''td'', Finite (3 / 4))] \<and>
   \<not> 5 \<le> int (length [(''ta'', Finite (1 / 2)), (''tc'', Finite (31 / 50)), (''td'', Finite (3 / 4))])"
  by (simp add: run_artists_random_5)

section \<open>Tokens of a draw\<close>

lemma tokens_drawn:
  assumes "\<And>row v. tok (mk row v) = tr row" and "distinct (map tr pool)"
  shows "distinct (map tok (random_loop mk e lo hi 0 (sample_rows r n pool) []))"
  using assms distinct_sample_rows [of tr pool r n]
  by (simp add: map_random_loop [of tok mk tr])

lemma run_twin_artists:
  "select_artists_random twin_artist_selector scenario_rng 2 2 (1 / 2) 1 5 =
     (Inr [(''same'', Finite (1 / 2)), (''same'', Finite (31 / 50))], twin_artist_selector,
      [RandomReport 2 2 2])"
  by code_simp

section \<open>Tokens within one result\<close>

text \<open>
  C5 (amended). \<^verbatim>\<open>sample\<close> draws distinct rows, not distinct triggers, so the
  result of one successful call (either mode, either selector) holds no trigger twice
  provided the eligible rows of the call carry pairwise distinct triggers. Nothing in the
  code removes a trigger that two eligible rows share.
\<close>

theorem result_tokens_distinct:
  "(select_artists_random s g a b lo hi mw = (Inr res1, s1, out1) \<and>
      distinct (map a_trigger (filter_artists (artists_df s) mw))
      \<longrightarrow> distinct (map fst res1)) \<and>
   (select_artists_only s g a b lo hi mw = (Inr res2, s2, out2) \<and>
      distinct (map a_trigger (filter_artists (artists_df s) mw))
      \<longrightarrow> distinct (map fst res2)) \<and>
   (select_characters_random cs g a b lo hi mt ms cf = (Inr res3, s3, out3) \<and>
      distinct (map c_trigger (filter_characters (characters_df cs) mt ms cf))
      \<longrightarrow> distinct (map fst res3)) \<and>
   (select_characters_only cs g a b lo hi mt ms cf = (Inr res4, s4, out4) \<and>
      distinct (map c_trigger (filter_characters (characters_df cs) mt ms cf))
      \<longrightarrow> distinct (map fst res4))"
proof (intro conjI impI; elim conjE)
  assume h: "select_artists_random s g a b lo hi mw = (Inr res1, s1, out1)"
    and d: "distinct (map a_trigger (filter_artists (artists_df s) mw))"
  note t = random_tail_Inr [OF select_artists_random_Inr(4) [OF h]]
  show "distinct (map fst res1)"
    unfolding t(3) by (rule tokens_drawn [OF _ d]) (simp add: artist_tuple_def)
next
  assume h: "select_artists_only s g a b lo hi mw = (Inr res2, s2, out2)"
    and d: "distinct (map a_trigger (filter_artists (artists_df s) mw))"
  obtain u where tl: "select_only_tail a_trigger artist_tuple g a b lo hi
      (length (artists_df s)) (filter_artists (artists_df s) mw)
      (used_tokens (used_artists s)) = (Inr res2, u, out2)"
    using select_artists_only_Inr(3) [OF h] by blast
  note t = only_tail_Inr [OF tl]
  show "distinct (map fst res2)"
    unfolding t(3)
    by (rule tokens_drawn [OF _ distinct_only_pool [OF d]]) (simp add: artist_tuple_def)
next
  assume h: "select_characters_random cs g a b lo hi mt ms cf = (Inr res3, s3, out3)"
    and d: "distinct (map c_trigger (filter_characters (characters_df cs) mt ms cf))"
  note t = random_tail_Inr [OF select_characters_random_Inr(4) [OF h]]
  show "distinct (map fst res3)"
    unfolding t(3) by (rule tokens_drawn [OF _ d]) (simp add: character_tuple_def)
next
  assume h: "select_characters_only cs g a b lo hi mt ms cf = (Inr res4, s4, out4)"
    and d: "distinct (map c_trigger (filter_characters (characters_df cs) mt ms cf))"
  obtain u where tl: "select_only_tail c_trigger character_tuple g a b lo hi
      (length (characters_df cs)) (filter_characters (characters_df cs) mt ms cf)
      (used_tokens (used_characters cs)) = (Inr res4, u, out4)"
    using select_characters_only_Inr(3) [OF h] by blast
  note t = only_tail_Inr [OF tl]
  show "distinct (map fst res4)"
    unfolding t(3)
    by (rule tokens_drawn [OF _ distinct_only_pool [OF d]]) (simp add: character_tuple_def)
qed

text \<open>The scenarios have distinct triggers, and so have the results of the four calls.\<close>

lemma scenario_artists_distinct:
  "distinct (map a_trigger (filter_artists (artists_df scenario_artist_selector) 5))"
  by (simp add: scenario_filter_artists)

lemma scenario_characters_distinct:
  "distinct (map c_trigger
     (filter_characters (characters_df scenario_character_selector) 5 1 None))"
  by (simp add: scenario_filter_characters)

theorem result_tokens_distinct_witness:
  "distinct (map a_trigger (filter_artists (artists_df scenario_artist_selector) 5)) \<and>
   distinct (map c_trigger
     (filter_characters (characters_df scenario_character_selector) 5 1 None)) \<and>
   fst (select_artists_random scenario_artist_selector scenario_rng 2 2 (1 / 2) 1 5) =
     Inr [(''ta'', Finite (1 / 2)), (''tc'', Finite (31 / 50))] \<and>
   fst (select_artists_only scenario_artist_selector scenario_rng 2 2 (1 / 2) 1 5) =
     Inr [(''ta'', Finite (1 / 2)), (''tc'', Finite (31 / 50))] \<and>
   distinct (map fst [(''ta'', Finite (1 / 2)), (''tc'', Finite (31 / 50))]) \<and>
   fst (select_characters_random scenario_character_selector scenario_rng 1 2 (1 / 2) 1 5 1
          None) = Inr [(''tp'', Finite (1 / 2), [''hat'', ''cape''])] \<and>
   fst (select_characters_only scenario_character_selector scenario_rng 1 2 (1 / 2) 1 5 1
          None) = Inr [(''tp'', Finite (1 / 2), [''hat'', ''cape''])] \<and>
   distinct (map fst [(''tp'', Finite (1 / 2), [''hat'', ''cape''])])"
  using
    result_tokens_distinct [THEN conjunct1, rule_format,
      OF conjI [OF run_artists_random_2 scenario_artists_distinct]]
    result_tokens_distinct [THEN conjunct2, THEN conjunct1, rule_format,
      OF conjI [OF run_artists_only_2 scenario_artists_distinct]]
    result_tokens_distinct [THEN conjunct2, THEN conjunct2, THEN conjunct1, rule_format,
      OF conjI [OF run_characters_random scenario_characters_distinct]]
    result_tokens_distinct [THEN conjunct2, THEN conjunct2, THEN conjunct2, rule_format,
      OF conjI [OF run_characters_only scenario_characters_distinct]]
    scenario_artists_distinct scenario_characters_distinct
    run_artists_random_2 run_artists_only_2 run_characters_random run_characters_only
  by simp

text \<open>
  C5 as stated fails on a data set with a duplicate trigger: both rows that carry
  \<^verbatim>\<open>same\<close> are eligible, both are drawn, and the result holds the token twice.
\<close>

theorem result_tokens_counterexample:
  "fst (select_artists_random twin_artist_selector scenario_rng 2 2 (1 / 2) 1 5) =
     Inr [(''same'', Finite (1 / 2)), (''same'', Finite (31 / 50))] \<and>
   \<not> distinct (map fst [(''same'', Finite (1 / 2)), (''same'', Finite (31 / 50))])"
  by (simp add: run_twin_artists)

section \<open>Mode only and the parameter checks, case by case\<close>

lemma select_artists_only_valid:
  assumes "a \<le> b" and "lo \<le> hi"
  shows "select_artists_only s g a b lo hi mw =
     (case select_only_tail a_trigger artist_tuple g a b lo hi (length (artists_df s))
             (filter_artists (artists_df s) mw) (used_tokens (used_artists s)) of
        (res, used', out) \<Rightarrow> (res, s\<lparr>used_artists := Some used'\<rparr>, out))"
  using assms
  by (cases "used_artists s")
     (simp_all add: select_artists_only_def Let_def used_tokens_def split: prod.splits)

lemma select_artists_only_invalid:
  assumes "b < a \<or> hi < lo"
  shows "select_artists_only s g a b lo hi mw =
     (Inl (if b < a then MinCountGreaterThanMaxCount else MinWeightGreaterThanMaxWeight),
      s\<lparr>used_artists := Some (used_tokens (used_artists s))\<rparr>, [])"
  using assms
  by (cases "used_artists s")
     (auto simp: select_artists_only_def Let_def used_tokens_def)

lemma select_characters_only_valid:
  assumes "a \<le> b" and "lo \<le> hi"
  shows "select_characters_only s g a b lo hi mt ms cf =
     (case select_only_tail c_trigger character_tuple g a b lo hi (length (characters_df s))
             (filter_characters (characters_df s) mt ms cf)
             (used_tokens (used_characters s)) of
        (res, used', out) \<Rightarrow> (res, s\<lparr>used_characters := Some used'\<rparr>, out))"
  using assms
  by (cases "used_characters s")
     (simp_all add: select_characters_only_def Let_def used_tokens_def split: prod.splits)

lemma select_characters_only_invalid:
  assumes "b < a \<or> hi < lo"
  shows "select_characters_only s g a b lo hi mt ms cf =
     (Inl (if b < a then MinCountGreaterThanMaxCount else MinWeightGreaterThanMaxWeight),
      s\<lparr>used_characters := Some (used_tokens (used_characters s))\<rparr>, [])"
  using assms
  by (cases "used_characters s")
     (auto simp: select_characters_only_def Let_def used_tokens_def)

lemma select_artists_random_invalid:
  assumes "b < a \<or> hi < lo"
  shows "select_artists_random s g a b lo hi mw =
     (Inl (if b < a then MinCountGreaterThanMaxCount else MinWeightGreaterThanMaxWeight),
      s, [])"
  using assms by (auto simp: select_artists_random_def)

lemma select_characters_random_invalid:
  assumes "b < a \<or> hi < lo"
  shows "select_characters_random s g a b lo hi mt ms cf =
     (Inl (if b < a then MinCountGreaterThanMaxCount else MinWeightGreaterThanMaxWeight),
      s, [])"
  using assms by (auto simp: select_characters_random_def)

section \<open>Invalid ranges\<close>

text \<open>
  C6. A call of \<^verbatim>\<open>select_artists\<close> or \<^verbatim>\<open>select_characters\<close> whose
  configured mode is \<^verbatim>\<open>random\<close> or \<^verbatim>\<open>only\<close> and whose effective
  parameters (the argument, or the configured value when the argument is \<^verbatim>\<open>None\<close>)
  have \<open>min_count > max_count\<close> or \<open>min_weight > max_weight\<close> fails with one of
  the two parameter errors. It prints nothing, keeps the data frame and the configuration,
  and leaves the tokens of the used-set as they were (mode \<^verbatim>\<open>only\<close> creates the
  attribute, empty, when it did not exist). The error is the same for every data frame,
  used-set, random source and threshold: it is raised before any filtering or drawing, and
  no range is clamped.
\<close>

theorem invalid_range_rejected:
  "(ac_mode (a_config s) = Some m \<and> (m = ''random'' \<or> m = ''only'') \<and>
    (or_config max_count (ac_max_count (a_config s))
       < or_config min_count (ac_min_count (a_config s)) \<or>
     or_config max_weight (ac_max_weight (a_config s))
       < or_config min_weight (ac_min_weight (a_config s)))
    \<longrightarrow>
      (\<exists>e. fst (select_artists s g min_count max_count min_weight max_weight min_works mode)
              = Inl e \<and> is_InvalidParameterError e) \<and>
      snd (snd (select_artists s g min_count max_count min_weight max_weight min_works mode))
        = [] \<and>
      used_tokens (used_artists (fst (snd
        (select_artists s g min_count max_count min_weight max_weight min_works mode))))
        = used_tokens (used_artists s) \<and>
      artists_df (fst (snd
        (select_artists s g min_count max_count min_weight max_weight min_works mode)))
        = artists_df s \<and>
      a_config (fst (snd
        (select_artists s g min_count max_count min_weight max_weight min_works mode)))
        = a_config s \<and>
      fst (select_artists (s\<lparr>artists_df := df', used_artists := u'\<rparr>) g' min_count
             max_count min_weight max_weight min_works' mode')
        = fst (select_artists s g min_count max_count min_weight max_weight min_works mode)) \<and>
   (cc_mode (c_config cs) = Some cm \<and> (cm = ''random'' \<or> cm = ''only'') \<and>
    (or_config max_count (cc_max_count (c_config cs))
       < or_config min_count (cc_min_count (c_config cs)) \<or>
     or_config max_weight (cc_max_weight (c_config cs))
       < or_config min_weight (cc_min_weight (c_config cs)))
    \<longrightarrow>
      (\<exists>e. fst (select_characters cs g min_count max_count min_weight max_weight
                   min_total_works min_solo_works copyright_filter mode)
              = Inl e \<and> is_InvalidParameterError e) \<and>
      snd (snd (select_characters cs g min_count max_count min_weight max_weight
                  min_total_works min_solo_works copyright_filter mode)) = [] \<and>
      used_tokens (used_characters (fst (snd
        (select_characters cs g min_count max_count min_weight max_weight
           min_total_works min_solo_works copyright_filter mode))))
        = used_tokens (used_characters cs) \<and>
      characters_df (fst (snd
        (select_characters cs g min_count max_count min_weight max_weight
           min_total_works min_solo_works copyright_filter mode)))
        = characters_df cs \<and>
      c_config (fst (snd
        (select_characters cs g min_count max_count min_weight max_weight
           min_total_works min_solo_works copyright_filter mode)))
        = c_config cs \<and>
      fst (select_characters (cs\<lparr>characters_df := cdf', used_characters := u'\<rparr>) g'
             min_count max_count min_weight max_weight min_total_works' min_solo_works'
             copyright_filter' mode')
        = fst (select_characters cs g min_count max_count min_weight max_weight
                 min_total_works min_solo_works copyright_filter mode))"
proof (intro conjI impI; elim conjE)
  let ?a = "or_config min_count (ac_min_count (a_config s))"
  let ?b = "or_config max_count (ac_max_count (a_config s))"
  let ?lo = "or_config min_weight (ac_min_weight (a_config s))"
  let ?hi = "or_config max_weight (ac_max_weight (a_config s))"
  assume m: "ac_mode (a_config s) = Some m" "m = ''random'' \<or> m = ''only''"
    and bad: "?b < ?a \<or> ?hi < ?lo"
  have eq: "select_artists t h min_count max_count min_weight max_weight w md =
      (Inl (if ?b < ?a then MinCountGreaterThanMaxCount else MinWeightGreaterThanMaxWeight),
       if m = ''only'' then t\<lparr>used_artists := Some (used_tokens (used_artists t))\<rparr> else t,
       [])"
    if "a_config t = a_config s" for t h w md
    using m that
      select_artists_random_invalid [OF bad]
      select_artists_only_invalid [OF bad]
    by (auto simp: select_artists_def Let_def)
  have e1: "select_artists s g min_count max_count min_weight max_weight min_works mode =
      (Inl (if ?b < ?a then MinCountGreaterThanMaxCount else MinWeightGreaterThanMaxWeight),
       if m = ''only'' then s\<lparr>used_artists := Some (used_tokens (used_artists s))\<rparr> else s,
       [])"
    by (rule eq) simp
  have e2: "select_artists (s\<lparr>artists_df := df', used_artists := u'\<rparr>) g' min_count
             max_count min_weight max_weight min_works' mode' =
      (Inl (if ?b < ?a then MinCountGreaterThanMaxCount else MinWeightGreaterThanMaxWeight),
       if m = ''only''
       then (s\<lparr>artists_df := df', used_artists := u'\<rparr>)\<lparr>used_artists :=
               Some (used_tokens (used_artists (s\<lparr>artists_df := df', used_artists := u'\<rparr>)))\<rparr>
       else s\<lparr>artists_df := df', used_artists := u'\<rparr>,
       [])"
    by (rule eq) simp
  show "\<exists>e. fst (select_artists s g min_count max_count min_weight max_weight min_works mode)
              = Inl e \<and> is_InvalidParameterError e"
    by (simp add: e1 is_InvalidParameterError_def)
  show "snd (snd (select_artists s g min_count max_count min_weight max_weight min_works mode))
        = []"
    by (simp add: e1)
  show "used_tokens (used_artists (fst (snd
        (select_artists s g min_count max_count min_weight max_weight min_works mode))))
        = used_tokens (used_artists s)"
    by (simp add: e1 used_tokens_def)
  show "artists_df (fst (snd
        (select_artists s g min_count max_count min_weight max_weight min_works mode)))
        = artists_df s"
    by (simp add: e1)
  show "a_config (fst (snd
        (select_artists s g min_count max_count min_weight max_weight min_works mode)))
        = a_config s"
    by (simp add: e1)
  show "fst (select_artists (s\<lparr>artists_df := df', used_artists := u'\<rparr>) g' min_count
             max_count min_weight max_weight min_works' mode')
        = fst (select_artists s g min_count max_count min_weight max_weight min_works mode)"
    by (simp only: e1 e2 fst_conv)
next
  let ?a = "or_config min_count (cc_min_count (c_config cs))"
  let ?b = "or_config max_count (cc_max_count (c_config cs))"
  let ?lo = "or_config min_weight (cc_min_weight (c_config cs))"
  let ?hi = "or_config max_weight (cc_max_weight (c_config cs))"
  assume m: "cc_mode (c_config cs) = Some cm" "cm = ''random'' \<or> cm = ''only''"
    and bad: "?b < ?a \<or> ?hi < ?lo"
  have eq: "select_characters t h min_count max_count min_weight max_weight w1 w2 f md =
      (Inl (if ?b < ?a then MinCountGreaterThanMaxCount else MinWeightGreaterThanMaxWeight),
       if cm = ''only'' then t\<lparr>used_characters := Some (used_tokens (used_characters t))\<rparr>
       else t,
       [])"
    if "c_config t = c_config cs" for t h w1 w2 f md
    using m that
      select_characters_random_invalid [OF bad]
      select_characters_only_invalid [OF bad]
    by (auto simp: select_characters_def Let_def)
  have e1: "select_characters cs g min_count max_count min_weight max_weight
              min_total_works min_solo_works copyright_filter mode =
      (Inl (if ?b < ?a then MinCountGreaterThanMaxCount else MinWeightGreaterThanMaxWeight),
       if cm = ''only'' then cs\<lparr>used_characters := Some (used_tokens (used_characters cs))\<rparr>
       else cs,
       [])"
    by (rule eq) simp
  have e2: "select_characters (cs\<lparr>characters_df := cdf', used_characters := u'\<rparr>) g'
             min_count max_count min_weight max_weight min_total_works' min_solo_works'
             copyright_filter' mode' =
      (Inl (if ?b < ?a then MinCountGreaterThanMaxCount else MinWeightGreaterThanMaxWeight),
       if cm = ''only''
       then (cs\<lparr>characters_df := cdf', used_characters := u'\<rparr>)\<lparr>used_characters :=
               Some (used_tokens (used_characters
                 (cs\<lparr>characters_df := cdf', used_characters := u'\<rparr>)))\<rparr>
       else cs\<lparr>characters_df := cdf', used_characters := u'\<rparr>,
       [])"
    by (rule eq) simp
  show "\<exists>e. fst (select_characters cs g min_count max_count min_weight max_weight
                   min_total_works min_solo_works copyright_filter mode)
              = Inl e \<and> is_InvalidParameterError e"
    by (simp add: e1 is_InvalidParameterError_def)
  show "snd (snd (select_characters cs g min_count max_count min_weight max_weight
                  min_total_works min_solo_works copyright_filter mode)) = []"
    by (simp add: e1)
  show "used_tokens (used_characters (fst (snd
        (select_characters cs g min_count max_count min_weight max_weight
           min_total_works min_solo_works copyright_filter mode))))
        = used_tokens (used_characters cs)"
    by (simp add: e1 used_tokens_def)
  show "characters_df (fst (snd
        (select_characters cs g min_count max_count min_weight max_weight
           min_total_works min_solo_works copyright_filter mode)))
        = characters_df cs"
    by (simp add: e1)
  show "c_config (fst (snd
        (select_characters cs g min_count max_count min_weight max_weight
           min_total_works min_solo_works copyright_filter mode)))
        = c_config cs"
    by (simp add: e1)
  show "fst (select_characters (cs\<lparr>characters_df := cdf', used_characters := u'\<rparr>) g'
             min_count max_count min_weight max_weight min_total_works' min_solo_works'
             copyright_filter' mode')
        = fst (select_characters cs g min_count max_count min_weight max_weight
                 min_total_works min_solo_works copyright_filter mode)"
    by (simp only: e1 e2 fst_conv)
qed

text \<open>
  The spec's scenario \<open>min_count = 5, max_count = 2\<close> on the artist selector in mode
  \<^verbatim>\<open>only\<close>, and \<open>min_weight = 1, max_weight = 1/2\<close> on a character selector
  in mode \<^verbatim>\<open>random\<close>.
\<close>

lemma run_artists_invalid_count:
  "select_artists scenario_artist_selector scenario_rng (Some 5) (Some 2) None None None None =
     (Inl MinCountGreaterThanMaxCount, scenario_artist_selector\<lparr>used_artists := Some {}\<rparr>,
      [])"
  by code_simp

lemma run_characters_invalid_weight:
  "select_characters random_character_selector scenario_rng None None (Some 1) (Some (1 / 2))
     None None None None =
     (Inl MinWeightGreaterThanMaxWeight, random_character_selector, [])"
  by code_simp

theorem invalid_range_rejected_witness:
  "(ac_mode (a_config scenario_artist_selector) = Some ''only'' \<and>
    or_config (Some 2) (ac_max_count (a_config scenario_artist_selector))
      < or_config (Some 5) (ac_min_count (a_config scenario_artist_selector))) \<and>
   fst (select_artists scenario_artist_selector scenario_rng (Some 5) (Some 2) None None None
          None) = Inl MinCountGreaterThanMaxCount \<and>
   is_InvalidParameterError MinCountGreaterThanMaxCount \<and>
   snd (snd (select_artists scenario_artist_selector scenario_rng (Some 5) (Some 2) None None
               None None)) = [] \<and>
   used_tokens (used_artists (fst (snd (select_artists scenario_artist_selector scenario_rng
     (Some 5) (Some 2) None None None None)))) = used_tokens (used_artists scenario_artist_selector) \<and>
   (cc_mode (c_config random_character_selector) = Some ''random'' \<and>
    or_config (Some (1 / 2)) (cc_max_weight (c_config random_character_selector))
      < or_config (Some 1) (cc_min_weight (c_config random_character_selector))) \<and>
   fst (select_characters random_character_selector scenario_rng None None (Some 1)
          (Some (1 / 2)) None None None None) = Inl MinWeightGreaterThanMaxWeight \<and>
   is_InvalidParameterError MinWeightGreaterThanMaxWeight \<and>
   snd (snd (select_characters random_character_selector scenario_rng None None (Some 1)
               (Some (1 / 2)) None None None None)) = []"
proof -
  have ha: "ac_mode (a_config scenario_artist_selector) = Some ''only'' \<and>
      (''only'' = ''random'' \<or> ''only'' = ''only'') \<and>
      (or_config (Some 2) (ac_max_count (a_config scenario_artist_selector))
         < or_config (Some 5) (ac_min_count (a_config scenario_artist_selector)) \<or>
       or_config None (ac_max_weight (a_config scenario_artist_selector))
         < or_config None (ac_min_weight (a_config scenario_artist_selector)))"
    by (simp add: scenario_artist_selector_def scenario_artist_config_def or_config_def)
  have hc: "cc_mode (c_config random_character_selector) = Some ''random'' \<and>
      (''random'' = ''random'' \<or> ''random'' = ''only'') \<and>
      (or_config None (cc_max_count (c_config random_character_selector))
         < or_config None (cc_min_count (c_config random_character_selector)) \<or>
       or_config (Some (1 / 2)) (cc_max_weight (c_config random_character_selector))
         < or_config (Some 1) (cc_min_weight (c_config random_character_selector)))"
    by (simp add: random_character_selector_def scenario_character_config_def or_config_def)
  note a = invalid_range_rejected [
      where s = scenario_artist_selector and m = "''only''" and min_count = "Some 5"
        and max_count = "Some 2" and min_weight = None and max_weight = None
        and g = scenario_rng and min_works = None and mode = None
        and df' = "[]" and u' = None and g' = scenario_rng and min_works' = None
        and mode' = None, THEN conjunct1, THEN mp, OF ha]
  note c = invalid_range_rejected [
      where cs = random_character_selector and cm = "''random''" and min_count = None
        and max_count = None and min_weight = "Some 1" and max_weight = "Some (1 / 2)"
        and g = scenario_rng and min_total_works = None and min_solo_works = None
        and copyright_filter = None and mode = None
        and cdf' = "[]" and u' = None and g' = scenario_rng and min_total_works' = None
        and min_solo_works' = None and copyright_filter' = None and mode' = None, THEN conjunct2, THEN mp, OF hc]
  have ra: "or_config (Some 2) (ac_max_count (a_config scenario_artist_selector))
      < or_config (Some 5) (ac_min_count (a_config scenario_artist_selector))"
    by (simp add: or_config_def)
  have rc: "or_config (Some (1 / 2)) (cc_max_weight (c_config random_character_selector))
      < or_config (Some 1) (cc_min_weight (c_config random_character_selector))"
    by (simp add: or_config_def)
  show ?thesis
    using a c ha hc ra rc run_artists_invalid_count run_characters_invalid_weight
    by (simp add: is_InvalidParameterError_def)
qed

section \<open>Mode only when nothing is available\<close>

lemma fst_case_triple: "fst (case p of (r, u, out) \<Rightarrow> (r, f u, out)) = fst p"
  by (cases p) auto

lemma draw_count_nonneg:
  assumes "a \<le> b" and "0 \<le> a"
  shows "0 \<le> draw_count g a b pool"
  using draw_count_bounds(1) [OF assms(1), of pool g] assms(2) by (simp add: min_def split: if_splits)

lemma available_rows_Nil_iff:
  "available_rows tr used rows = [] \<longleftrightarrow> tr ` set rows \<subseteq> used"
  by (auto simp: available_rows_def filter_empty_conv)

lemma only_pool_exhausted:
  "available_rows tr used all_valid = [] \<Longrightarrow> only_pool tr used all_valid = all_valid"
  by (simp add: only_pool_def)

text \<open>The tail of mode only when no eligible row is available.\<close>

lemma only_tail_exhausted:
  assumes "all_valid \<noteq> []" and "available_rows tr used all_valid = []"
  shows "select_only_tail tr mk g a b lo hi n all_valid used =
     (if draw_count g a b all_valid < 0 then (Inl NegativeSampleSize, {}, [ResetNotice])
      else (Inr (random_loop mk (weight_seed g) lo hi 0
                   (sample_rows (row_seed g) (nat (draw_count g a b all_valid)) all_valid) []),
            tr ` set (sample_rows (row_seed g) (nat (draw_count g a b all_valid)) all_valid),
            [ResetNotice,
             OnlyReport n (length all_valid) (length all_valid)
               (card (tr ` set (sample_rows (row_seed g) (nat (draw_count g a b all_valid))
                                 all_valid)))
               (draw_count g a b all_valid)]))"
  using assms by (simp add: select_only_tail_eq Let_def only_pool_exhausted)

lemma only_tail_none_eligible:
  "select_only_tail tr mk g a b lo hi n [] used = (Inl NoValidRecords, {}, [ResetNotice])"
  by (simp add: select_only_tail_eq Let_def)

lemma only_tail_NoValidRecords:
  "fst (select_only_tail tr mk g a b lo hi n all_valid used) = Inl NoValidRecords
     \<longleftrightarrow> all_valid = []"
  by (simp add: select_only_tail_eq Let_def)

text \<open>
  C3 (amended). In mode \<^verbatim>\<open>only\<close>, for a call whose parameters pass the two range
  checks: the call raises the no-eligible-records error exactly when no row passes the
  thresholds. When rows pass the thresholds but all their triggers are in the used-set, the
  call prints the reset notice, clears the used-set and draws from all the eligible rows:
  if the drawn count is not negative (always so when \<open>min_count \<ge> 0\<close>) it returns
  that draw and the used-set becomes the triggers drawn; if the drawn count is negative,
  \<^verbatim>\<open>sample\<close> raises and the used-set stays cleared.
\<close>

theorem only_mode_no_eligible_iff:
  "(a \<le> b \<and> lo \<le> hi \<longrightarrow>
      ((\<exists>e. fst (select_artists_only s g a b lo hi mw) = Inl e \<and> is_NoEligibleRecordsError e)
         = (filter_artists (artists_df s) mw = [])) \<and>
      (filter_artists (artists_df s) mw \<noteq> [] \<and>
       available_rows a_trigger (used_tokens (used_artists s))
         (filter_artists (artists_df s) mw) = [] \<longrightarrow>
         ResetNotice \<in> set (snd (snd (select_artists_only s g a b lo hi mw))) \<and>
         (0 \<le> a \<longrightarrow> 0 \<le> draw_count g a b (filter_artists (artists_df s) mw)) \<and>
         (0 \<le> draw_count g a b (filter_artists (artists_df s) mw) \<longrightarrow>
            fst (select_artists_only s g a b lo hi mw) =
              Inr (random_loop artist_tuple (weight_seed g) lo hi 0
                     (sample_rows (row_seed g)
                        (nat (draw_count g a b (filter_artists (artists_df s) mw)))
                        (filter_artists (artists_df s) mw)) []) \<and>
            used_artists (fst (snd (select_artists_only s g a b lo hi mw))) =
              Some (a_trigger ` set (sample_rows (row_seed g)
                        (nat (draw_count g a b (filter_artists (artists_df s) mw)))
                        (filter_artists (artists_df s) mw)))) \<and>
         (draw_count g a b (filter_artists (artists_df s) mw) < 0 \<longrightarrow>
            fst (select_artists_only s g a b lo hi mw) = Inl NegativeSampleSize \<and>
            used_artists (fst (snd (select_artists_only s g a b lo hi mw))) = Some {}))) \<and>
   (a \<le> b \<and> lo \<le> hi \<longrightarrow>
      ((\<exists>e. fst (select_characters_only cs g a b lo hi mt ms cf) = Inl e \<and>
            is_NoEligibleRecordsError e)
         = (filter_characters (characters_df cs) mt ms cf = [])) \<and>
      (filter_characters (characters_df cs) mt ms cf \<noteq> [] \<and>
       available_rows c_trigger (used_tokens (used_characters cs))
         (filter_characters (characters_df cs) mt ms cf) = [] \<longrightarrow>
         ResetNotice \<in> set (snd (snd (select_characters_only cs g a b lo hi mt ms cf))) \<and>
         (0 \<le> a \<longrightarrow> 0 \<le> draw_count g a b (filter_characters (characters_df cs) mt ms cf)) \<and>
         (0 \<le> draw_count g a b (filter_characters (characters_df cs) mt ms cf) \<longrightarrow>
            fst (select_characters_only cs g a b lo hi mt ms cf) =
              Inr (random_loop character_tuple (weight_seed g) lo hi 0
                     (sample_rows (row_seed g)
                        (nat (draw_count g a b (filter_characters (characters_df cs) mt ms cf)))
                        (filter_characters (characters_df cs) mt ms cf)) []) \<and>
            used_characters (fst (snd (select_characters_only cs g a b lo hi mt ms cf))) =
              Some (c_trigger ` set (sample_rows (row_seed g)
                        (nat (draw_count g a b (filter_characters (characters_df cs) mt ms cf)))
                        (filter_characters (characters_df cs) mt ms cf)))) \<and>
         (draw_count g a b (filter_characters (characters_df cs) mt ms cf) < 0 \<longrightarrow>
            fst (select_characters_only cs g a b lo hi mt ms cf) = Inl NegativeSampleSize \<and>
            used_characters (fst (snd (select_characters_only cs g a b lo hi mt ms cf)))
              = Some {})))"
proof (intro conjI impI; elim conjE)
  assume v: "a \<le> b" "lo \<le> hi"
  note eq = select_artists_only_valid [OF v, of s g mw]
  show "(\<exists>e. fst (select_artists_only s g a b lo hi mw) = Inl e \<and> is_NoEligibleRecordsError e)
         = (filter_artists (artists_df s) mw = [])"
    using only_tail_NoValidRecords [of a_trigger artist_tuple g a b lo hi
        "length (artists_df s)" "filter_artists (artists_df s) mw"
        "used_tokens (used_artists s)"]
    by (simp add: eq is_NoEligibleRecordsError_def fst_case_triple)
next
  assume v: "a \<le> b" "lo \<le> hi" and "0 \<le> a"
  then show "0 \<le> draw_count g a b (filter_artists (artists_df s) mw)"
    by (simp add: draw_count_nonneg)
next
  assume v: "a \<le> b" "lo \<le> hi"
    and e: "filter_artists (artists_df s) mw \<noteq> []"
      "available_rows a_trigger (used_tokens (used_artists s))
         (filter_artists (artists_df s) mw) = []"
  note eq = select_artists_only_valid [OF v, of s g mw]
  note tl = only_tail_exhausted [OF e, of artist_tuple g a b lo hi "length (artists_df s)"]
  show "ResetNotice \<in> set (snd (snd (select_artists_only s g a b lo hi mw)))"
    by (simp add: eq tl)
  {
    assume "0 \<le> draw_count g a b (filter_artists (artists_df s) mw)"
    then show "fst (select_artists_only s g a b lo hi mw) =
              Inr (random_loop artist_tuple (weight_seed g) lo hi 0
                     (sample_rows (row_seed g)
                        (nat (draw_count g a b (filter_artists (artists_df s) mw)))
                        (filter_artists (artists_df s) mw)) [])"
      and "used_artists (fst (snd (select_artists_only s g a b lo hi mw))) =
              Some (a_trigger ` set (sample_rows (row_seed g)
                        (nat (draw_count g a b (filter_artists (artists_df s) mw)))
                        (filter_artists (artists_df s) mw)))"
      by (simp_all add: eq tl)
  }
  {
    assume "draw_count g a b (filter_artists (artists_df s) mw) < 0"
    then show "fst (select_artists_only s g a b lo hi mw) = Inl NegativeSampleSize"
      and "used_artists (fst (snd (select_artists_only s g a b lo hi mw))) = Some {}"
      by (simp_all add: eq tl)
  }
next
  assume v: "a \<le> b" "lo \<le> hi"
  note eq = select_characters_only_valid [OF v, of cs g mt ms cf]
  show "(\<exists>e. fst (select_characters_only cs g a b lo hi mt ms cf) = Inl e \<and>
            is_NoEligibleRecordsError e)
         = (filter_characters (characters_df cs) mt ms cf = [])"
    using only_tail_NoValidRecords [of c_trigger character_tuple g a b lo hi
        "length (characters_df cs)" "filter_characters (characters_df cs) mt ms cf"
        "used_tokens (used_characters cs)"]
    by (simp add: eq is_NoEligibleRecordsError_def fst_case_triple)
next
  assume v: "a \<le> b" "lo \<le> hi" and "0 \<le> a"
  then show "0 \<le> draw_count g a b (filter_characters (characters_df cs) mt ms cf)"
    by (simp add: draw_count_nonneg)
next
  assume v: "a \<le> b" "lo \<le> hi"
    and e: "filter_characters (characters_df cs) mt ms cf \<noteq> []"
      "available_rows c_trigger (used_tokens (used_characters cs))
         (filter_characters (characters_df cs) mt ms cf) = []"
  note eq = select_characters_only_valid [OF v, of cs g mt ms cf]
  note tl = only_tail_exhausted [OF e, of character_tuple g a b lo hi
      "length (characters_df cs)"]
  show "ResetNotice \<in> set (snd (snd (select_characters_only cs g a b lo hi mt ms cf)))"
    by (simp add: eq tl)
  {
    assume "0 \<le> draw_count g a b (filter_characters (characters_df cs) mt ms cf)"
    then show "fst (select_characters_only cs g a b lo hi mt ms cf) =
              Inr (random_loop character_tuple (weight_seed g) lo hi 0
                     (sample_rows (row_seed g)
                        (nat (draw_count g a b (filter_characters (characters_df cs) mt ms cf)))
                        (filter_characters (characters_df cs) mt ms cf)) [])"
      and "used_characters (fst (snd (select_characters_only cs g a b lo hi mt ms cf))) =
              Some (c_trigger ` set (sample_rows (row_seed g)
                        (nat (draw_count g a b (filter_characters (characters_df cs) mt ms cf)))
                        (filter_characters (characters_df cs) mt ms cf)))"
      by (simp_all add: eq tl)
  }
  {
    assume "draw_count g a b (filter_characters (characters_df cs) mt ms cf) < 0"
    then show "fst (select_characters_only cs g a b lo hi mt ms cf) = Inl NegativeSampleSize"
      and "used_characters (fst (snd (select_characters_only cs g a b lo hi mt ms cf)))
              = Some {}"
      by (simp_all add: eq tl)
  }
qed

text \<open>Calls on the selectors whose used-set holds every eligible token.\<close>

lemma run_used_up_artists:
  "select_artists_only used_up_artist_selector scenario_rng 2 2 (1 / 2) 1 5 =
     (Inr [(''ta'', Finite (1 / 2)), (''tc'', Finite (31 / 50))],
      used_up_artist_selector\<lparr>used_artists := Some {''ta'', ''tc''}\<rparr>,
      [ResetNotice, OnlyReport 5 3 3 2 2])"
  by code_simp

lemma run_used_up_characters:
  "select_characters_only used_up_character_selector scenario_rng 1 2 (1 / 2) 1 5 1 None =
     (Inr [(''tp'', Finite (1 / 2), [''hat'', ''cape''])],
      used_up_character_selector\<lparr>used_characters := Some {''tp''}\<rparr>,
      [ResetNotice, OnlyReport 3 2 2 1 1])"
  by code_simp

lemma run_none_eligible_artists:
  "select_artists_only used_up_artist_selector scenario_rng 2 2 (1 / 2) 1 100 =
     (Inl NoValidRecords, used_up_artist_selector\<lparr>used_artists := Some {}\<rparr>,
      [ResetNotice])"
  by code_simp

lemma run_none_eligible_characters:
  "select_characters_only used_up_character_selector scenario_rng 1 2 (1 / 2) 1 100 1 None =
     (Inl NoValidRecords, used_up_character_selector\<lparr>used_characters := Some {}\<rparr>,
      [ResetNotice])"
  by code_simp

lemma run_invalid_none_eligible:
  "select_artists_only scenario_artist_selector scenario_rng 5 2 (1 / 2) 1 100 =
     (Inl MinCountGreaterThanMaxCount, scenario_artist_selector\<lparr>used_artists := Some {}\<rparr>,
      [])"
  by code_simp

lemma run_negative_count:
  "select_artists_only used_up_artist_selector scenario_rng (- 1) (- 1) (1 / 2) 1 5 =
     (Inl NegativeSampleSize, used_up_artist_selector\<lparr>used_artists := Some {}\<rparr>,
      [ResetNotice])"
  by code_simp

lemma used_up_artists_exhausted:
  "filter_artists (artists_df used_up_artist_selector) 5 \<noteq> [] \<and>
   available_rows a_trigger (used_tokens (used_artists used_up_artist_selector))
     (filter_artists (artists_df used_up_artist_selector) 5) = []"
  by code_simp

lemma used_up_characters_exhausted:
  "filter_characters (characters_df used_up_character_selector) 5 1 None \<noteq> [] \<and>
   available_rows c_trigger (used_tokens (used_characters used_up_character_selector))
     (filter_characters (characters_df used_up_character_selector) 5 1 None) = []"
  by code_simp

lemma none_eligible_artists:
  "filter_artists (artists_df used_up_artist_selector) 100 = []"
  "filter_artists (artists_df scenario_artist_selector) 100 = []"
  by code_simp+

lemma none_eligible_characters:
  "filter_characters (characters_df used_up_character_selector) 100 1 None = []"
  by code_simp

theorem only_mode_no_eligible_iff_witness:
  "((2 :: int) \<le> 2 \<and> (1 / 2 :: rat) \<le> 1) \<and>
   filter_artists (artists_df used_up_artist_selector) 100 = [] \<and>
   (\<exists>e. fst (select_artists_only used_up_artist_selector scenario_rng 2 2 (1 / 2) 1 100)
          = Inl e \<and> is_NoEligibleRecordsError e) \<and>
   (filter_artists (artists_df used_up_artist_selector) 5 \<noteq> [] \<and>
    available_rows a_trigger (used_tokens (used_artists used_up_artist_selector))
      (filter_artists (artists_df used_up_artist_selector) 5) = []) \<and>
   0 \<le> draw_count scenario_rng 2 2 (filter_artists (artists_df used_up_artist_selector) 5) \<and>
   ResetNotice \<in> set (snd (snd
     (select_artists_only used_up_artist_selector scenario_rng 2 2 (1 / 2) 1 5))) \<and>
   fst (select_artists_only used_up_artist_selector scenario_rng 2 2 (1 / 2) 1 5) =
     Inr [(''ta'', Finite (1 / 2)), (''tc'', Finite (31 / 50))] \<and>
   ((1 :: int) \<le> 2 \<and> (1 / 2 :: rat) \<le> 1) \<and>
   filter_characters (characters_df used_up_character_selector) 100 1 None = [] \<and>
   (\<exists>e. fst (select_characters_only used_up_character_selector scenario_rng 1 2 (1 / 2) 1 100
              1 None) = Inl e \<and> is_NoEligibleRecordsError e) \<and>
   (filter_characters (characters_df used_up_character_selector) 5 1 None \<noteq> [] \<and>
    available_rows c_trigger (used_tokens (used_characters used_up_character_selector))
      (filter_characters (characters_df used_up_character_selector) 5 1 None) = []) \<and>
   0 \<le> draw_count scenario_rng 1 2
         (filter_characters (characters_df used_up_character_selector) 5 1 None) \<and>
   ResetNotice \<in> set (snd (snd
     (select_characters_only used_up_character_selector scenario_rng 1 2 (1 / 2) 1 5 1 None)))"
proof -
  have va: "(2 :: int) \<le> 2 \<and> (1 / 2 :: rat) \<le> 1" by simp
  have vc: "(1 :: int) \<le> 2 \<and> (1 / 2 :: rat) \<le> 1" by simp
  note a100 = only_mode_no_eligible_iff [where s = used_up_artist_selector
      and g = scenario_rng and a = 2 and b = 2 and lo = "1 / 2" and hi = 1 and mw = 100,
      THEN conjunct1, THEN mp, OF va, THEN conjunct1]
  note a5 = only_mode_no_eligible_iff [where s = used_up_artist_selector
      and g = scenario_rng and a = 2 and b = 2 and lo = "1 / 2" and hi = 1 and mw = 5,
      THEN conjunct1, THEN mp, OF va, THEN conjunct2, THEN mp, OF used_up_artists_exhausted]
  note c100 = only_mode_no_eligible_iff [where cs = used_up_character_selector
      and g = scenario_rng and a = 1 and b = 2 and lo = "1 / 2" and hi = 1 and mt = 100
      and ms = 1 and cf = None,
      THEN conjunct2, THEN mp, OF vc, THEN conjunct1]
  note c5 = only_mode_no_eligible_iff [where cs = used_up_character_selector
      and g = scenario_rng and a = 1 and b = 2 and lo = "1 / 2" and hi = 1 and mt = 5
      and ms = 1 and cf = None,
      THEN conjunct2, THEN mp, OF vc, THEN conjunct2, THEN mp,
      OF used_up_characters_exhausted]
  show ?thesis
    using a100 a5 c100 c5 none_eligible_artists(1) none_eligible_characters
      used_up_artists_exhausted used_up_characters_exhausted
      run_used_up_artists
    by simp
qed

text \<open>
  C3 as stated fails twice. With no eligible row and \<open>min_count = 5 > max_count = 2\<close>
  the call raises the parameter error, not the no-eligible-records error. With eligible rows
  that are all used and \<open>min_count = max_count = -1\<close> the call resets and then fails
  in \<^verbatim>\<open>sample\<close>.
\<close>

theorem only_mode_no_eligible_counterexample:
  "filter_artists (artists_df scenario_artist_selector) 100 = [] \<and>
   fst (select_artists_only scenario_artist_selector scenario_rng 5 2 (1 / 2) 1 100) =
     Inl MinCountGreaterThanMaxCount \<and>
   \<not> is_NoEligibleRecordsError MinCountGreaterThanMaxCount \<and>
   filter_artists (artists_df used_up_artist_selector) 5 \<noteq> [] \<and>
   available_rows a_trigger (used_tokens (used_artists used_up_artist_selector))
     (filter_artists (artists_df used_up_artist_selector) 5) = [] \<and>
   (- 1 :: int) \<le> - 1 \<and> (1 / 2 :: rat) \<le> 1 \<and>
   fst (select_artists_only used_up_artist_selector scenario_rng (- 1) (- 1) (1 / 2) 1 5) =
     Inl NegativeSampleSize"
  using none_eligible_artists(2) used_up_artists_exhausted
  by (simp add: run_invalid_none_eligible run_negative_count is_NoEligibleRecordsError_def)

section \<open>A failing call in mode only that changes the state\<close>

text \<open>
  C10. In mode \<^verbatim>\<open>only\<close>, a call that raises the no-eligible-records error (as
  every call with valid ranges does when no row passes the thresholds) has printed the
  reset notice and left the used-set empty, whatever it held before: the failing call
  does not preserve the state, and a retry with looser thresholds starts from an empty
  used-set.
\<close>

theorem no_eligible_failure_clears_used_set:
  "(fst (select_artists_only s g a b lo hi mw) = Inl NoValidRecords \<longrightarrow>
      filter_artists (artists_df s) mw = [] \<and>
      select_artists_only s g a b lo hi mw =
        (Inl NoValidRecords, s\<lparr>used_artists := Some {}\<rparr>, [ResetNotice])) \<and>
   (a \<le> b \<and> lo \<le> hi \<and> filter_artists (artists_df s) mw = [] \<longrightarrow>
      select_artists_only s g a b lo hi mw =
        (Inl NoValidRecords, s\<lparr>used_artists := Some {}\<rparr>, [ResetNotice])) \<and>
   (fst (select_characters_only cs g a b lo hi mt ms cf) = Inl NoValidRecords \<longrightarrow>
      filter_characters (characters_df cs) mt ms cf = [] \<and>
      select_characters_only cs g a b lo hi mt ms cf =
        (Inl NoValidRecords, cs\<lparr>used_characters := Some {}\<rparr>, [ResetNotice])) \<and>
   (a \<le> b \<and> lo \<le> hi \<and> filter_characters (characters_df cs) mt ms cf = [] \<longrightarrow>
      select_characters_only cs g a b lo hi mt ms cf =
        (Inl NoValidRecords, cs\<lparr>used_characters := Some {}\<rparr>, [ResetNotice]))"
proof -
  have a2: "select_artists_only s g a b lo hi mw =
        (Inl NoValidRecords, s\<lparr>used_artists := Some {}\<rparr>, [ResetNotice])"
    if "a \<le> b" "lo \<le> hi" "filter_artists (artists_df s) mw = []"
    using that by (simp add: select_artists_only_valid only_tail_none_eligible)
  have a1: "filter_artists (artists_df s) mw = [] \<and> a \<le> b \<and> lo \<le> hi"
    if h: "fst (select_artists_only s g a b lo hi mw) = Inl NoValidRecords"
  proof (cases "b < a \<or> hi < lo")
    case True
    then show ?thesis using h by (simp add: select_artists_only_invalid split: if_splits)
  next
    case False
    then have v: "a \<le> b" "lo \<le> hi" by simp_all
    show ?thesis
      using h v only_tail_NoValidRecords [of a_trigger artist_tuple g a b lo hi
          "length (artists_df s)" "filter_artists (artists_df s) mw"
          "used_tokens (used_artists s)"]
      by (simp add: select_artists_only_valid fst_case_triple)
  qed
  have c2: "select_characters_only cs g a b lo hi mt ms cf =
        (Inl NoValidRecords, cs\<lparr>used_characters := Some {}\<rparr>, [ResetNotice])"
    if "a \<le> b" "lo \<le> hi" "filter_characters (characters_df cs) mt ms cf = []"
    using that by (simp add: select_characters_only_valid only_tail_none_eligible)
  have c1: "filter_characters (characters_df cs) mt ms cf = [] \<and> a \<le> b \<and> lo \<le> hi"
    if h: "fst (select_characters_only cs g a b lo hi mt ms cf) = Inl NoValidRecords"
  proof (cases "b < a \<or> hi < lo")
    case True
    then show ?thesis using h by (simp add: select_characters_only_invalid split: if_splits)
  next
    case False
    then have v: "a \<le> b" "lo \<le> hi" by simp_all
    show ?thesis
      using h v only_tail_NoValidRecords [of c_trigger character_tuple g a b lo hi
          "length (characters_df cs)" "filter_characters (characters_df cs) mt ms cf"
          "used_tokens (used_characters cs)"]
      by (simp add: select_characters_only_valid fst_case_triple)
  qed
  show ?thesis using a1 a2 c1 c2 by blast
qed

text \<open>
  A used-set of three tokens is emptied by a failing call, and the retry with the looser
  threshold draws two of those tokens without a reset notice.
\<close>

lemma run_retry_artists:
  "select_artists_only (used_up_artist_selector\<lparr>used_artists := Some {}\<rparr>) scenario_rng
     2 2 (1 / 2) 1 5 =
     (Inr [(''ta'', Finite (1 / 2)), (''tc'', Finite (31 / 50))],
      used_up_artist_selector\<lparr>used_artists := Some {''ta'', ''tc''}\<rparr>,
      [OnlyReport 5 3 3 2 2])"
  by code_simp

theorem no_eligible_failure_clears_used_set_witness:
  "fst (select_artists_only used_up_artist_selector scenario_rng 2 2 (1 / 2) 1 100) =
     Inl NoValidRecords \<and>
   filter_artists (artists_df used_up_artist_selector) 100 = [] \<and>
   select_artists_only used_up_artist_selector scenario_rng 2 2 (1 / 2) 1 100 =
     (Inl NoValidRecords, used_up_artist_selector\<lparr>used_artists := Some {}\<rparr>,
      [ResetNotice]) \<and>
   used_artists used_up_artist_selector = Some {''ta'', ''tc'', ''td''} \<and>
   used_up_artist_selector\<lparr>used_artists := Some {}\<rparr> \<noteq> used_up_artist_selector \<and>
   select_artists_only (used_up_artist_selector\<lparr>used_artists := Some {}\<rparr>) scenario_rng
     2 2 (1 / 2) 1 5 =
     (Inr [(''ta'', Finite (1 / 2)), (''tc'', Finite (31 / 50))],
      used_up_artist_selector\<lparr>used_artists := Some {''ta'', ''tc''}\<rparr>,
      [OnlyReport 5 3 3 2 2]) \<and>
   ((1 :: int) \<le> 2 \<and> (1 / 2 :: rat) \<le> 1) \<and>
   filter_characters (characters_df used_up_character_selector) 100 1 None = [] \<and>
   select_characters_only used_up_character_selector scenario_rng 1 2 (1 / 2) 1 100 1 None =
     (Inl NoValidRecords, used_up_character_selector\<lparr>used_characters := Some {}\<rparr>,
      [ResetNotice]) \<and>
   used_up_character_selector\<lparr>used_characters := Some {}\<rparr> \<noteq> used_up_character_selector"
proof -
  have ha: "fst (select_artists_only used_up_artist_selector scenario_rng 2 2 (1 / 2) 1 100) =
     Inl NoValidRecords"
    by (simp add: run_none_eligible_artists)
  have hc: "(1 :: int) \<le> 2 \<and> (1 / 2 :: rat) \<le> 1 \<and>
      filter_characters (characters_df used_up_character_selector) 100 1 None = []"
    by (simp add: none_eligible_characters)
  note a = no_eligible_failure_clears_used_set [where s = used_up_artist_selector
      and g = scenario_rng and a = 2 and b = 2 and lo = "1 / 2" and hi = 1 and mw = 100,
      THEN conjunct1, THEN mp, OF ha]
  note c = no_eligible_failure_clears_used_set [where cs = used_up_character_selector
      and g = scenario_rng and a = 1 and b = 2 and lo = "1 / 2" and hi = 1 and mt = 100
      and ms = 1 and cf = None,
      THEN conjunct2, THEN conjunct2, THEN conjunct2, THEN mp, OF hc]
  have ne: "used_artists used_up_artist_selector = Some {''ta'', ''tc'', ''td''}"
    "used_up_artist_selector\<lparr>used_artists := Some {}\<rparr> \<noteq> used_up_artist_selector"
    "used_up_character_selector\<lparr>used_characters := Some {}\<rparr> \<noteq> used_up_character_selector"
    by (simp_all add: used_up_artist_selector_def used_up_character_selector_def)
  show ?thesis using a c ha hc ne run_retry_artists by simp
qed

section \<open>The mode argument\<close>

text \<open>
  C7. The mode in force is the configured one, whatever \<^verbatim>\<open>mode\<close> argument is
  passed. Two calls of \<^verbatim>\<open>select_artists\<close> (or of \<^verbatim>\<open>select_characters\<close>)
  that differ only in the \<^verbatim>\<open>mode\<close> argument, on the same selector state, the same
  configuration, the same other arguments and the same random source, have the same
  outcome: the same result or error, the same state afterwards and the same output. That
  outcome is the one of the random-mode function on the effective parameters when the
  configured mode is \<^verbatim>\<open>random\<close>, the one of the only-mode function when it is
  \<^verbatim>\<open>only\<close>, the key error when the configuration has no mode, and the invalid-mode
  error for any other configured mode.
\<close>

theorem select_mode_is_configured:
  "select_artists s g min_count max_count min_weight max_weight min_works mode1 =
     select_artists s g min_count max_count min_weight max_weight min_works mode2 \<and>
   (ac_mode (a_config s) = Some ''random'' \<longrightarrow>
      select_artists s g min_count max_count min_weight max_weight min_works mode1 =
        select_artists_random s g
          (or_config min_count (ac_min_count (a_config s)))
          (or_config max_count (ac_max_count (a_config s)))
          (or_config min_weight (ac_min_weight (a_config s)))
          (or_config max_weight (ac_max_weight (a_config s)))
          (or_config min_works (ac_min_works (a_config s)))) \<and>
   (ac_mode (a_config s) = Some ''only'' \<longrightarrow>
      select_artists s g min_count max_count min_weight max_weight min_works mode1 =
        select_artists_only s g
          (or_config min_count (ac_min_count (a_config s)))
          (or_config max_count (ac_max_count (a_config s)))
          (or_config min_weight (ac_min_weight (a_config s)))
          (or_config max_weight (ac_max_weight (a_config s)))
          (or_config min_works (ac_min_works (a_config s)))) \<and>
   (ac_mode (a_config s) = None \<longrightarrow>
      select_artists s g min_count max_count min_weight max_weight min_works mode1 =
        (Inl MissingModeKey, s, [])) \<and>
   (ac_mode (a_config s) = Some m \<and> m \<noteq> ''random'' \<and> m \<noteq> ''only'' \<longrightarrow>
      select_artists s g min_count max_count min_weight max_weight min_works mode1 =
        (Inl InvalidMode, s, [])) \<and>
   select_characters cs g min_count max_count min_weight max_weight min_total_works
       min_solo_works copyright_filter mode1 =
     select_characters cs g min_count max_count min_weight max_weight min_total_works
       min_solo_works copyright_filter mode2 \<and>
   (cc_mode (c_config cs) = Some ''random'' \<longrightarrow>
      select_characters cs g min_count max_count min_weight max_weight min_total_works
          min_solo_works copyright_filter mode1 =
        select_characters_random cs g
          (or_config min_count (cc_min_count (c_config cs)))
          (or_config max_count (cc_max_count (c_config cs)))
          (or_config min_weight (cc_min_weight (c_config cs)))
          (or_config max_weight (cc_max_weight (c_config cs)))
          (or_config min_total_works (cc_min_total_works (c_config cs)))
          (or_config min_solo_works (cc_min_solo_works (c_config cs)))
          copyright_filter) \<and>
   (cc_mode (c_config cs) = Some ''only'' \<longrightarrow>
      select_characters cs g min_count max_count min_weight max_weight min_total_works
          min_solo_works copyright_filter mode1 =
        select_characters_only cs g
          (or_config min_count (cc_min_count (c_config cs)))
          (or_config max_count (cc_max_count (c_config cs)))
          (or_config min_weight (cc_min_weight (c_config cs)))
          (or_config max_weight (cc_max_weight (c_config cs)))
          (or_config min_total_works (cc_min_total_works (c_config cs)))
          (or_config min_solo_works (cc_min_solo_works (c_config cs)))
          copyright_filter) \<and>
   (cc_mode (c_config cs) = None \<longrightarrow>
      select_characters cs g min_count max_count min_weight max_weight min_total_works
          min_solo_works copyright_filter mode1 =
        (Inl MissingModeKey, cs, [])) \<and>
   (cc_mode (c_config cs) = Some cm \<and> cm \<noteq> ''random'' \<and> cm \<noteq> ''only'' \<longrightarrow>
      select_characters cs g min_count max_count min_weight max_weight min_total_works
          min_solo_works copyright_filter mode1 =
        (Inl InvalidMode, cs, []))"
  by (simp add: select_artists_def select_characters_def Let_def)

text \<open>
  The artist selector configured with \<^verbatim>\<open>only\<close> and called with the argument
  \<^verbatim>\<open>random\<close> runs mode \<^verbatim>\<open>only\<close>: it records the tokens it returns. The
  character selector configured with \<^verbatim>\<open>random\<close> and called with the argument
  \<^verbatim>\<open>only\<close> runs mode \<^verbatim>\<open>random\<close>: it creates no used-set. Without a
  configured mode, or with the configured mode \<^verbatim>\<open>Random\<close>, the call fails whatever
  is passed.
\<close>

lemma run_artists_configured_only:
  "select_artists_only scenario_artist_selector scenario_rng
     (or_config None (ac_min_count (a_config scenario_artist_selector)))
     (or_config None (ac_max_count (a_config scenario_artist_selector)))
     (or_config None (ac_min_weight (a_config scenario_artist_selector)))
     (or_config None (ac_max_weight (a_config scenario_artist_selector)))
     (or_config None (ac_min_works (a_config scenario_artist_selector))) =
     (Inr [(''ta'', Finite (1 / 2)), (''tc'', Finite (31 / 50))],
      scenario_artist_selector\<lparr>used_artists := Some {''ta'', ''tc''}\<rparr>,
      [OnlyReport 5 3 3 2 2])"
  by code_simp

lemma run_artists_configured_random:
  "select_artists_random twin_artist_selector scenario_rng
     (or_config None (ac_min_count (a_config twin_artist_selector)))
     (or_config None (ac_max_count (a_config twin_artist_selector)))
     (or_config None (ac_min_weight (a_config twin_artist_selector)))
     (or_config None (ac_max_weight (a_config twin_artist_selector)))
     (or_config None (ac_min_works (a_config twin_artist_selector))) =
     (Inr [(''same'', Finite (1 / 2)), (''same'', Finite (31 / 50))], twin_artist_selector,
      [RandomReport 2 2 2])"
  by code_simp

lemma run_characters_configured_random:
  "select_characters_random random_character_selector scenario_rng
     (or_config None (cc_min_count (c_config random_character_selector)))
     (or_config None (cc_max_count (c_config random_character_selector)))
     (or_config None (cc_min_weight (c_config random_character_selector)))
     (or_config None (cc_max_weight (c_config random_character_selector)))
     (or_config None (cc_min_total_works (c_config random_character_selector)))
     (or_config None (cc_min_solo_works (c_config random_character_selector)))
     None =
     (Inr [(''tp'', Finite (1 / 2), [''hat'', ''cape''])], random_character_selector,
      [RandomReport 3 2 1])"
  by code_simp

lemma run_characters_configured_only:
  "select_characters_only scenario_character_selector scenario_rng
     (or_config None (cc_min_count (c_config scenario_character_selector)))
     (or_config None (cc_max_count (c_config scenario_character_selector)))
     (or_config None (cc_min_weight (c_config scenario_character_selector)))
     (or_config None (cc_max_weight (c_config scenario_character_selector)))
     (or_config None (cc_min_total_works (c_config scenario_character_selector)))
     (or_config None (cc_min_solo_works (c_config scenario_character_selector)))
     None =
     (Inr [(''tp'', Finite (1 / 2), [''hat'', ''cape''])],
      scenario_character_selector\<lparr>used_characters := Some {''tp''}\<rparr>,
      [OnlyReport 3 2 2 1 1])"
  by code_simp

lemma configured_modes:
  "ac_mode (a_config scenario_artist_selector) = Some ''only''"
  "ac_mode (a_config twin_artist_selector) = Some ''random''"
  "ac_mode (a_config modeless_artist_selector) = None"
  "ac_mode (a_config odd_mode_artist_selector) = Some ''Random'' \<and>
     ''Random'' \<noteq> ''random'' \<and> ''Random'' \<noteq> ''only''"
  "cc_mode (c_config scenario_character_selector) = Some ''only''"
  "cc_mode (c_config random_character_selector) = Some ''random''"
  "cc_mode (c_config modeless_character_selector) = None"
  "cc_mode (c_config odd_mode_character_selector) = Some ''Random'' \<and>
     ''Random'' \<noteq> ''random'' \<and> ''Random'' \<noteq> ''only''"
  by (simp_all add: scenario_artist_selector_def twin_artist_selector_def
      modeless_artist_selector_def odd_mode_artist_selector_def
      scenario_character_selector_def random_character_selector_def
      modeless_character_selector_def odd_mode_character_selector_def
      scenario_artist_config_def scenario_character_config_def)

theorem select_mode_is_configured_witness:
  "ac_mode (a_config scenario_artist_selector) = Some ''only'' \<and>
   select_artists scenario_artist_selector scenario_rng None None None None None
       (Some ''random'') =
     (Inr [(''ta'', Finite (1 / 2)), (''tc'', Finite (31 / 50))],
      scenario_artist_selector\<lparr>used_artists := Some {''ta'', ''tc''}\<rparr>,
      [OnlyReport 5 3 3 2 2]) \<and>
   ac_mode (a_config twin_artist_selector) = Some ''random'' \<and>
   select_artists twin_artist_selector scenario_rng None None None None None (Some ''only'') =
     (Inr [(''same'', Finite (1 / 2)), (''same'', Finite (31 / 50))], twin_artist_selector,
      [RandomReport 2 2 2]) \<and>
   ac_mode (a_config modeless_artist_selector) = None \<and>
   select_artists modeless_artist_selector scenario_rng None None None None None
       (Some ''random'') = (Inl MissingModeKey, modeless_artist_selector, []) \<and>
   ac_mode (a_config odd_mode_artist_selector) = Some ''Random'' \<and>
   select_artists odd_mode_artist_selector scenario_rng None None None None None
       (Some ''random'') = (Inl InvalidMode, odd_mode_artist_selector, []) \<and>
   cc_mode (c_config scenario_character_selector) = Some ''only'' \<and>
   select_characters scenario_character_selector scenario_rng None None None None None None
       None (Some ''random'') =
     (Inr [(''tp'', Finite (1 / 2), [''hat'', ''cape''])],
      scenario_character_selector\<lparr>used_characters := Some {''tp''}\<rparr>,
      [OnlyReport 3 2 2 1 1]) \<and>
   cc_mode (c_config random_character_selector) = Some ''random'' \<and>
   select_characters random_character_selector scenario_rng None None None None None None
       None (Some ''only'') =
     (Inr [(''tp'', Finite (1 / 2), [''hat'', ''cape''])], random_character_selector,
      [RandomReport 3 2 1]) \<and>
   cc_mode (c_config modeless_character_selector) = None \<and>
   select_characters modeless_character_selector scenario_rng None None None None None None
       None (Some ''only'') = (Inl MissingModeKey, modeless_character_selector, []) \<and>
   cc_mode (c_config odd_mode_character_selector) = Some ''Random'' \<and>
   select_characters odd_mode_character_selector scenario_rng None None None None None None
       None (Some ''only'') = (Inl InvalidMode, odd_mode_character_selector, [])"
proof -
  note t = select_mode_is_configured [where g = scenario_rng and min_count = None
      and max_count = None and min_weight = None and max_weight = None and min_works = None
      and min_total_works = None and min_solo_works = None and copyright_filter = None]
  note a_only = t [where s = scenario_artist_selector and ?mode1.0 = "Some ''random''",
      THEN conjunct2, THEN conjunct2, THEN conjunct1, THEN mp, OF configured_modes(1)]
  note a_random = t [where s = twin_artist_selector and ?mode1.0 = "Some ''only''",
      THEN conjunct2, THEN conjunct1, THEN mp, OF configured_modes(2)]
  note a_none = t [where s = modeless_artist_selector and ?mode1.0 = "Some ''random''",
      THEN conjunct2, THEN conjunct2, THEN conjunct2, THEN conjunct1, THEN mp,
      OF configured_modes(3)]
  note a_odd = t [where s = odd_mode_artist_selector and ?mode1.0 = "Some ''random''"
      and m = "''Random''",
      THEN conjunct2, THEN conjunct2, THEN conjunct2, THEN conjunct2, THEN conjunct1,
      THEN mp, OF configured_modes(4)]
  note c_random = select_mode_is_configured [where g = scenario_rng and min_count = None
      and max_count = None and min_weight = None and max_weight = None
      and min_total_works = None and min_solo_works = None and copyright_filter = None
      and cs = random_character_selector and ?mode1.0 = "Some ''only''",
      THEN conjunct2, THEN conjunct2, THEN conjunct2, THEN conjunct2, THEN conjunct2,
      THEN conjunct2, THEN conjunct1, THEN mp, OF configured_modes(6)]
  note c_only = select_mode_is_configured [where g = scenario_rng and min_count = None
      and max_count = None and min_weight = None and max_weight = None
      and min_total_works = None and min_solo_works = None and copyright_filter = None
      and cs = scenario_character_selector and ?mode1.0 = "Some ''random''",
      THEN conjunct2, THEN conjunct2, THEN conjunct2, THEN conjunct2, THEN conjunct2,
      THEN conjunct2, THEN conjunct2, THEN conjunct1, THEN mp, OF configured_modes(5)]
  note c_none = select_mode_is_configured [where g = scenario_rng and min_count = None
      and max_count = None and min_weight = None and max_weight = None
      and min_total_works = None and min_solo_works = None and copyright_filter = None
      and cs = modeless_character_selector and ?mode1.0 = "Some ''only''",
      THEN conjunct2, THEN conjunct2, THEN conjunct2, THEN conjunct2, THEN conjunct2,
      THEN conjunct2, THEN conjunct2, THEN conjunct2, THEN conjunct1, THEN mp,
      OF configured_modes(7)]
  note c_odd = select_mode_is_configured [where g = scenario_rng and min_count = None
      and max_count = None and min_weight = None and max_weight = None
      and min_total_works = None and min_solo_works = None and copyright_filter = None
      and cs = odd_mode_character_selector and ?mode1.0 = "Some ''only''"
      and cm = "''Random''",
      THEN conjunct2, THEN conjunct2, THEN conjunct2, THEN conjunct2, THEN conjunct2,
      THEN conjunct2, THEN conjunct2, THEN conjunct2, THEN conjunct2, THEN mp,
      OF configured_modes(8)]
  show ?thesis
    using a_only a_random a_none a_odd c_random c_only c_none c_odd
      configured_modes(1,2,3,5,6,7) configured_modes(4) [THEN conjunct1]
      configured_modes(8) [THEN conjunct1]
      run_artists_configured_only run_artists_configured_random
      run_characters_configured_random run_characters_configured_only
    by simp
qed

section \<open>The copyright catalog\<close>












section \<open>Sequences of calls in mode only\<close>

lemma run_calls_length: "length (run_calls step s cs) = length cs"
  by (induction cs arbitrary: s) (simp_all split: prod.splits)

lemma run_calls_Cons:
  "run_calls step s (c # cs) = step s c # run_calls step (fst (snd (step s c))) cs"
  by (simp split: prod.splits)

lemma state_before_Suc:
  "state_before step s (c # cs) (Suc k) = state_before step (fst (snd (step s c))) cs k"
  by (cases k) (simp_all add: state_before_def run_calls_Cons del: run_calls.simps)

lemma run_calls_nth:
  "k < length cs \<Longrightarrow> run_calls step s cs ! k = step (state_before step s cs k) (cs ! k)"
proof (induction cs arbitrary: s k)
  case Nil
  then show ?case by simp
next
  case (Cons c cs)
  show ?case
  proof (cases k)
    case 0
    then show ?thesis by (simp add: run_calls_Cons state_before_def del: run_calls.simps)
  next
    case (Suc k')
    then have "k' < length cs" using Cons.prems by simp
    then show ?thesis
      using Cons.IH [of k' "fst (snd (step s c))"] Suc
      by (simp only: run_calls_Cons state_before_Suc nth_Cons_Suc)
  qed
qed

lemma state_before_step:
  assumes "k < length cs"
  shows "state_before step s cs (Suc k) =
           fst (snd (step (state_before step s cs k) (cs ! k)))"
  using run_calls_nth [OF assms, of step s] by (simp add: state_before_def)

lemma tracks_usedD:
  assumes "tracks_used step U T"
  shows "ResetNotice \<notin> set (snd (snd (step s c))) \<Longrightarrow> T (fst (step s c)) \<inter> U s = {}"
    and "ResetNotice \<notin> set (snd (snd (step s c))) \<Longrightarrow>
           U (fst (snd (step s c))) = U s \<union> T (fst (step s c))"
    and "ResetNotice \<in> set (snd (snd (step s c))) \<Longrightarrow>
           U (fst (snd (step s c))) = T (fst (step s c))"
  using assms unfolding tracks_used_def by blast+

lemma tracks_used_after:
  assumes "tracks_used step U T"
  shows "T (fst (step s c)) \<subseteq> U (fst (snd (step s c)))"
    and "U (fst (snd (step s c))) \<subseteq> U s \<union> T (fst (step s c))"
  using tracks_usedD(2,3) [OF assms, of s c] by blast+

text \<open>A token of the used-set is not returned before a reset.\<close>

lemma used_token_waits:
  assumes tr: "tracks_used step U T"
  shows "t \<in> U s \<Longrightarrow> j < length cs \<Longrightarrow> t \<in> T (fst (run_calls step s cs ! j)) \<Longrightarrow>
         \<exists>m\<le>j. ResetNotice \<in> set (snd (snd (run_calls step s cs ! m)))"
proof (induction cs arbitrary: s j)
  case Nil
  then show ?case by simp
next
  case (Cons c cs)
  let ?s' = "fst (snd (step s c))"
  show ?case
  proof (cases "ResetNotice \<in> set (snd (snd (step s c)))")
    case True
    then have "ResetNotice \<in> set (snd (snd (run_calls step s (c # cs) ! 0)))"
      by (simp add: run_calls_Cons del: run_calls.simps)
    then show ?thesis by blast
  next
    case False
    note nr = tracks_usedD(1,2) [OF tr False]
    show ?thesis
    proof (cases j)
      case 0
      then have "t \<in> T (fst (step s c))"
        using Cons.prems(3) by (simp add: run_calls_Cons del: run_calls.simps)
      then show ?thesis using nr(1) Cons.prems(1) by blast
    next
      case (Suc j')
      have a: "t \<in> U ?s'" using nr(2) Cons.prems(1) by simp
      have b: "j' < length cs" using Cons.prems(2) Suc by simp
      have c: "t \<in> T (fst (run_calls step ?s' cs ! j'))"
        using Cons.prems(3) Suc by (simp add: run_calls_Cons del: run_calls.simps)
      obtain m where "m \<le> j'" "ResetNotice \<in> set (snd (snd (run_calls step ?s' cs ! m)))"
        using Cons.IH [OF a b c] by blast
      then have "Suc m \<le> j \<and>
          ResetNotice \<in> set (snd (snd (run_calls step s (c # cs) ! Suc m)))"
        using Suc by (simp add: run_calls_Cons del: run_calls.simps)
      then show ?thesis by blast
    qed
  qed
qed

text \<open>A token returned by one call is not returned by a later call before a reset.\<close>

lemma returned_token_waits:
  assumes tr: "tracks_used step U T"
  shows "i < j \<Longrightarrow> j < length cs \<Longrightarrow> t \<in> T (fst (run_calls step s cs ! i)) \<Longrightarrow>
         t \<in> T (fst (run_calls step s cs ! j)) \<Longrightarrow>
         \<exists>m. i < m \<and> m \<le> j \<and> ResetNotice \<in> set (snd (snd (run_calls step s cs ! m)))"
proof (induction cs arbitrary: s i j)
  case Nil
  then show ?case by simp
next
  case (Cons c cs)
  let ?s' = "fst (snd (step s c))"
  obtain j' where j: "j = Suc j'" using Cons.prems(1) by (cases j) simp_all
  have jl: "j' < length cs" using Cons.prems(2) j by simp
  have tj: "t \<in> T (fst (run_calls step ?s' cs ! j'))"
    using Cons.prems(4) j by (simp add: run_calls_Cons del: run_calls.simps)
  show ?case
  proof (cases i)
    case 0
    then have "t \<in> T (fst (step s c))"
      using Cons.prems(3) by (simp add: run_calls_Cons del: run_calls.simps)
    then have "t \<in> U ?s'" using tracks_used_after(1) [OF tr, of s c] by blast
    then obtain m where "m \<le> j'"
        "ResetNotice \<in> set (snd (snd (run_calls step ?s' cs ! m)))"
      using used_token_waits [OF tr _ jl tj] by blast
    then have "i < Suc m \<and> Suc m \<le> j \<and>
        ResetNotice \<in> set (snd (snd (run_calls step s (c # cs) ! Suc m)))"
      using 0 j by (simp add: run_calls_Cons del: run_calls.simps)
    then show ?thesis by blast
  next
    case (Suc i')
    have a: "i' < j'" using Cons.prems(1) Suc j by simp
    have b: "t \<in> T (fst (run_calls step ?s' cs ! i'))"
      using Cons.prems(3) Suc by (simp add: run_calls_Cons del: run_calls.simps)
    obtain m where "i' < m" "m \<le> j'"
        "ResetNotice \<in> set (snd (snd (run_calls step ?s' cs ! m)))"
      using Cons.IH [OF a jl b tj] by blast
    then have "i < Suc m \<and> Suc m \<le> j \<and>
        ResetNotice \<in> set (snd (snd (run_calls step s (c # cs) ! Suc m)))"
      using Suc j by (simp add: run_calls_Cons del: run_calls.simps)
    then show ?thesis by blast
  qed
qed

text \<open>The used-set holds only tokens it held at the start or that were returned since.\<close>

lemma used_set_was_returned:
  assumes tr: "tracks_used step U T"
  shows "m \<le> length cs \<Longrightarrow>
         U (state_before step s cs m) \<subseteq> U s \<union> (\<Union>k<m. T (fst (run_calls step s cs ! k)))"
proof (induction m)
  case 0
  then show ?case by (simp add: state_before_def)
next
  case (Suc m)
  then have m: "m < length cs" by simp
  have "U (state_before step s cs (Suc m)) \<subseteq>
          U (state_before step s cs m) \<union> T (fst (run_calls step s cs ! m))"
    using tracks_used_after(2) [OF tr, of "state_before step s cs m" "cs ! m"]
    by (simp add: state_before_step [OF m] run_calls_nth [OF m])
  moreover have "U (state_before step s cs m) \<subseteq>
          U s \<union> (\<Union>k<m. T (fst (run_calls step s cs ! k)))"
    using Suc by simp
  moreover have "(\<Union>k<Suc m. T (fst (run_calls step s cs ! k))) =
          (\<Union>k<m. T (fst (run_calls step s cs ! k))) \<union> T (fst (run_calls step s cs ! m))"
    by (simp add: lessThan_Suc Un_commute)
  ultimately show ?case by blast
qed


lemma result_tokens_drawn:
  assumes "\<And>row v. fst (mk row v) = tr row"
  shows "result_tokens (Inr (random_loop mk e lo hi 0 rows [])) = tr ` set rows"
proof -
  have "map fst (random_loop mk e lo hi 0 rows []) = map tr rows"
    using assms by (simp add: map_random_loop [of fst mk tr])
  then have "set (map fst (random_loop mk e lo hi 0 rows [])) = set (map tr rows)"
    by simp
  then show ?thesis by (simp add: result_tokens_def)
qed

lemma result_tokens_Inl: "result_tokens (Inl e) = {}"
  by (simp add: result_tokens_def)

lemma sample_of_available_unused:
  "tr ` set (sample_rows r n (available_rows tr used rows)) \<inter> used = {}"
  using set_sample_rows [of r n "available_rows tr used rows"]
  by (auto simp: available_rows_def)

text \<open>The tail of mode only, with and without the exhaustion of the pool.\<close>

lemma only_tail_tracks:
  assumes tok: "\<And>row v. fst (mk row v) = tr row"
  shows "(ResetNotice \<in> set (snd (snd (select_only_tail tr mk g a b lo hi n all_valid used))))
           = (available_rows tr used all_valid = [])"
    and "available_rows tr used all_valid \<noteq> [] \<Longrightarrow>
           result_tokens (fst (select_only_tail tr mk g a b lo hi n all_valid used)) \<inter> used = {} \<and>
           fst (snd (select_only_tail tr mk g a b lo hi n all_valid used)) =
             used \<union> result_tokens (fst (select_only_tail tr mk g a b lo hi n all_valid used))"
    and "available_rows tr used all_valid = [] \<Longrightarrow>
           fst (snd (select_only_tail tr mk g a b lo hi n all_valid used)) =
             result_tokens (fst (select_only_tail tr mk g a b lo hi n all_valid used)) \<and>
           tr ` set all_valid \<subseteq> used"
proof -
  note rt = result_tokens_drawn [of mk tr, OF tok]
  show "(ResetNotice \<in> set (snd (snd (select_only_tail tr mk g a b lo hi n all_valid used))))
           = (available_rows tr used all_valid = [])"
    by (auto simp: select_only_tail_eq Let_def available_rows_def)
  {
    assume av: "available_rows tr used all_valid \<noteq> []"
    then have nv: "all_valid \<noteq> []" by (auto simp: available_rows_def)
    have pool: "only_pool tr used all_valid = available_rows tr used all_valid"
      using av by (simp add: only_pool_def)
    show "result_tokens (fst (select_only_tail tr mk g a b lo hi n all_valid used)) \<inter> used = {} \<and>
           fst (snd (select_only_tail tr mk g a b lo hi n all_valid used)) =
             used \<union> result_tokens (fst (select_only_tail tr mk g a b lo hi n all_valid used))"
      using av nv sample_of_available_unused [of tr "row_seed g" _ used all_valid]
      by (simp add: select_only_tail_eq Let_def pool rt result_tokens_Inl)
  }
  {
    assume av: "available_rows tr used all_valid = []"
    have pool: "only_pool tr used all_valid = all_valid"
      using av by (simp add: only_pool_def)
    show "fst (snd (select_only_tail tr mk g a b lo hi n all_valid used)) =
             result_tokens (fst (select_only_tail tr mk g a b lo hi n all_valid used)) \<and>
           tr ` set all_valid \<subseteq> used"
      using av available_rows_Nil_iff [of tr used all_valid]
      by (simp add: select_only_tail_eq Let_def pool rt result_tokens_Inl)
  }
qed

lemma snd_case_triple:
  "fst (snd (case p of (r, u, out) \<Rightarrow> (r, f u, out))) = f (fst (snd p))"
  "snd (snd (case p of (r, u, out) \<Rightarrow> (r, f u, out))) = snd (snd p)"
  by (cases p; simp)+

lemma artist_tuple_fst: "fst (artist_tuple row v) = a_trigger row"
  by (simp add: artist_tuple_def)

lemma character_tuple_fst: "fst (character_tuple row v) = c_trigger row"
  by (simp add: character_tuple_def)

lemma artist_only_call_tracks:
  "tracks_used artist_only_call (\<lambda>s. used_tokens (used_artists s)) result_tokens"
  unfolding tracks_used_def
proof (intro allI)
  fix s :: artist_selector and c :: artist_call
  obtain g a b lo hi mw where c: "c = (g, a, b, lo, hi, mw)" by (cases c) auto
  let ?U = "used_tokens (used_artists s)"
  let ?R = "artist_only_call s c"
  show "(ResetNotice \<notin> set (snd (snd ?R)) \<longrightarrow>
          result_tokens (fst ?R) \<inter> ?U = {} \<and>
          used_tokens (used_artists (fst (snd ?R))) = ?U \<union> result_tokens (fst ?R)) \<and>
        (ResetNotice \<in> set (snd (snd ?R)) \<longrightarrow>
          used_tokens (used_artists (fst (snd ?R))) = result_tokens (fst ?R))"
  proof (cases "b < a \<or> hi < lo")
    case True
    then show ?thesis
      by (simp add: c artist_only_call_def select_artists_only_invalid result_tokens_Inl
          used_tokens_def)
  next
    case False
    then have v: "a \<le> b" "lo \<le> hi" by simp_all
    note t = only_tail_tracks [where mk = artist_tuple and tr = a_trigger and g = g
        and a = a and b = b and lo = lo and hi = hi and n = "length (artists_df s)"
        and all_valid = "filter_artists (artists_df s) mw"
        and used = "used_tokens (used_artists s)", OF artist_tuple_fst]
    have eq: "?R = (case select_only_tail a_trigger artist_tuple g a b lo hi
        (length (artists_df s)) (filter_artists (artists_df s) mw) ?U of
        (res, used', out) \<Rightarrow> (res, s\<lparr>used_artists := Some used'\<rparr>, out))"
      by (simp add: c artist_only_call_def select_artists_only_valid [OF v])
    show ?thesis
      using t by (simp add: eq fst_case_triple snd_case_triple used_tokens_def)
  qed
qed

lemma artist_reset_exhausted:
  assumes "ResetNotice \<in> set (snd (snd (artist_only_call s c)))"
  shows "artist_call_eligible s c \<subseteq> used_tokens (used_artists s)"
proof -
  obtain g a b lo hi mw where c: "c = (g, a, b, lo, hi, mw)" by (cases c) auto
  show ?thesis
  proof (cases "b < a \<or> hi < lo")
    case True
    then show ?thesis
      using assms by (simp add: c artist_only_call_def select_artists_only_invalid)
  next
    case False
    then have v: "a \<le> b" "lo \<le> hi" by simp_all
    note t = only_tail_tracks [where mk = artist_tuple and tr = a_trigger and g = g
        and a = a and b = b and lo = lo and hi = hi and n = "length (artists_df s)"
        and all_valid = "filter_artists (artists_df s) mw"
        and used = "used_tokens (used_artists s)", OF artist_tuple_fst]
    show ?thesis
      using assms t(1) t(3)
      by (simp add: c artist_only_call_def artist_call_eligible_def
          select_artists_only_valid [OF v] snd_case_triple)
  qed
qed

lemma character_only_call_tracks:
  "tracks_used character_only_call (\<lambda>s. used_tokens (used_characters s)) result_tokens"
  unfolding tracks_used_def
proof (intro allI)
  fix s :: character_selector and c :: character_call
  obtain g a b lo hi mt ms cf where c: "c = (g, a, b, lo, hi, mt, ms, cf)"
    by (cases c) auto
  let ?U = "used_tokens (used_characters s)"
  let ?R = "character_only_call s c"
  show "(ResetNotice \<notin> set (snd (snd ?R)) \<longrightarrow>
          result_tokens (fst ?R) \<inter> ?U = {} \<and>
          used_tokens (used_characters (fst (snd ?R))) = ?U \<union> result_tokens (fst ?R)) \<and>
        (ResetNotice \<in> set (snd (snd ?R)) \<longrightarrow>
          used_tokens (used_characters (fst (snd ?R))) = result_tokens (fst ?R))"
  proof (cases "b < a \<or> hi < lo")
    case True
    then show ?thesis
      by (simp add: c character_only_call_def select_characters_only_invalid
          result_tokens_Inl used_tokens_def)
  next
    case False
    then have v: "a \<le> b" "lo \<le> hi" by simp_all
    note t = only_tail_tracks [where mk = character_tuple and tr = c_trigger and g = g
        and a = a and b = b and lo = lo and hi = hi and n = "length (characters_df s)"
        and all_valid = "filter_characters (characters_df s) mt ms cf"
        and used = "used_tokens (used_characters s)", OF character_tuple_fst]
    have eq: "?R = (case select_only_tail c_trigger character_tuple g a b lo hi
        (length (characters_df s)) (filter_characters (characters_df s) mt ms cf) ?U of
        (res, used', out) \<Rightarrow> (res, s\<lparr>used_characters := Some used'\<rparr>, out))"
      by (simp add: c character_only_call_def select_characters_only_valid [OF v])
    show ?thesis
      using t by (simp add: eq fst_case_triple snd_case_triple used_tokens_def)
  qed
qed

lemma character_reset_exhausted:
  assumes "ResetNotice \<in> set (snd (snd (character_only_call s c)))"
  shows "character_call_eligible s c \<subseteq> used_tokens (used_characters s)"
proof -
  obtain g a b lo hi mt ms cf where c: "c = (g, a, b, lo, hi, mt, ms, cf)"
    by (cases c) auto
  show ?thesis
  proof (cases "b < a \<or> hi < lo")
    case True
    then show ?thesis
      using assms by (simp add: c character_only_call_def select_characters_only_invalid)
  next
    case False
    then have v: "a \<le> b" "lo \<le> hi" by simp_all
    note t = only_tail_tracks [where mk = character_tuple and tr = c_trigger and g = g
        and a = a and b = b and lo = lo and hi = hi and n = "length (characters_df s)"
        and all_valid = "filter_characters (characters_df s) mt ms cf"
        and used = "used_tokens (used_characters s)", OF character_tuple_fst]
    show ?thesis
      using assms t(1) t(3)
      by (simp add: c character_only_call_def character_call_eligible_def
          select_characters_only_valid [OF v] snd_case_triple)
  qed
qed

text \<open>
  C1. Take any sequence of calls in mode \<^verbatim>\<open>only\<close> on one selector, with no
  \<^verbatim>\<open>reset\<close> between them (the arguments may differ from call to call, and a call
  that raises returns no token). If a token is in the results of two different calls
  \<open>i < j\<close>, then some call \<open>m\<close> with \<open>i < m \<le> j\<close> found its pool exhausted:
  it printed the reset notice, every token eligible for it was in the used-set, that
  used-set held only tokens the selector started with or returned in earlier calls of the
  sequence, and after the call the used-set is the tokens this call returned. So no token
  is returned twice until every token of the eligible pool has been returned, and then the
  used-set is emptied and tokens recur.
\<close>

theorem only_mode_no_repeat_until_exhausted:
  "(i < j \<and> j < length cs \<and>
    t \<in> result_tokens (fst (run_calls artist_only_call s cs ! i)) \<and>
    t \<in> result_tokens (fst (run_calls artist_only_call s cs ! j))
    \<longrightarrow>
    (\<exists>m. i < m \<and> m \<le> j \<and>
       ResetNotice \<in> set (snd (snd (run_calls artist_only_call s cs ! m))) \<and>
       artist_call_eligible (state_before artist_only_call s cs m) (cs ! m)
         \<subseteq> used_tokens (used_artists (state_before artist_only_call s cs m)) \<and>
       used_tokens (used_artists (state_before artist_only_call s cs m))
         \<subseteq> used_tokens (used_artists s) \<union>
            (\<Union>k<m. result_tokens (fst (run_calls artist_only_call s cs ! k))) \<and>
       used_tokens (used_artists (fst (snd (run_calls artist_only_call s cs ! m))))
         = result_tokens (fst (run_calls artist_only_call s cs ! m)))) \<and>
   (i < j \<and> j < length ccs \<and>
    t \<in> result_tokens (fst (run_calls character_only_call c ccs ! i)) \<and>
    t \<in> result_tokens (fst (run_calls character_only_call c ccs ! j))
    \<longrightarrow>
    (\<exists>m. i < m \<and> m \<le> j \<and>
       ResetNotice \<in> set (snd (snd (run_calls character_only_call c ccs ! m))) \<and>
       character_call_eligible (state_before character_only_call c ccs m) (ccs ! m)
         \<subseteq> used_tokens (used_characters (state_before character_only_call c ccs m)) \<and>
       used_tokens (used_characters (state_before character_only_call c ccs m))
         \<subseteq> used_tokens (used_characters c) \<union>
            (\<Union>k<m. result_tokens (fst (run_calls character_only_call c ccs ! k))) \<and>
       used_tokens (used_characters (fst (snd (run_calls character_only_call c ccs ! m))))
         = result_tokens (fst (run_calls character_only_call c ccs ! m))))"
proof (intro conjI impI; elim conjE)
  assume h: "i < j" "j < length cs"
    "t \<in> result_tokens (fst (run_calls artist_only_call s cs ! i))"
    "t \<in> result_tokens (fst (run_calls artist_only_call s cs ! j))"
  note tr = artist_only_call_tracks
  obtain m where m: "i < m" "m \<le> j"
      "ResetNotice \<in> set (snd (snd (run_calls artist_only_call s cs ! m)))"
    using returned_token_waits [OF tr h] by blast
  have ml: "m < length cs" using m(2) h(2) by simp
  note nth = run_calls_nth [OF ml, of artist_only_call s]
  have e: "artist_call_eligible (state_before artist_only_call s cs m) (cs ! m)
         \<subseteq> used_tokens (used_artists (state_before artist_only_call s cs m))"
    using m(3) by (intro artist_reset_exhausted) (simp add: nth)
  have u: "used_tokens (used_artists (state_before artist_only_call s cs m))
         \<subseteq> used_tokens (used_artists s) \<union>
            (\<Union>k<m. result_tokens (fst (run_calls artist_only_call s cs ! k)))"
    using used_set_was_returned [OF tr, of m cs s] ml by simp
  have a: "used_tokens (used_artists (fst (snd (run_calls artist_only_call s cs ! m))))
         = result_tokens (fst (run_calls artist_only_call s cs ! m))"
    using m(3) tracks_usedD(3) [OF tr, of "state_before artist_only_call s cs m" "cs ! m"]
    by (simp add: nth)
  show "\<exists>m. i < m \<and> m \<le> j \<and>
       ResetNotice \<in> set (snd (snd (run_calls artist_only_call s cs ! m))) \<and>
       artist_call_eligible (state_before artist_only_call s cs m) (cs ! m)
         \<subseteq> used_tokens (used_artists (state_before artist_only_call s cs m)) \<and>
       used_tokens (used_artists (state_before artist_only_call s cs m))
         \<subseteq> used_tokens (used_artists s) \<union>
            (\<Union>k<m. result_tokens (fst (run_calls artist_only_call s cs ! k))) \<and>
       used_tokens (used_artists (fst (snd (run_calls artist_only_call s cs ! m))))
         = result_tokens (fst (run_calls artist_only_call s cs ! m))"
    using m e u a by blast
next
  assume h: "i < j" "j < length ccs"
    "t \<in> result_tokens (fst (run_calls character_only_call c ccs ! i))"
    "t \<in> result_tokens (fst (run_calls character_only_call c ccs ! j))"
  note tr = character_only_call_tracks
  obtain m where m: "i < m" "m \<le> j"
      "ResetNotice \<in> set (snd (snd (run_calls character_only_call c ccs ! m)))"
    using returned_token_waits [OF tr h] by blast
  have ml: "m < length ccs" using m(2) h(2) by simp
  note nth = run_calls_nth [OF ml, of character_only_call c]
  have e: "character_call_eligible (state_before character_only_call c ccs m) (ccs ! m)
         \<subseteq> used_tokens (used_characters (state_before character_only_call c ccs m))"
    using m(3) by (intro character_reset_exhausted) (simp add: nth)
  have u: "used_tokens (used_characters (state_before character_only_call c ccs m))
         \<subseteq> used_tokens (used_characters c) \<union>
            (\<Union>k<m. result_tokens (fst (run_calls character_only_call c ccs ! k)))"
    using used_set_was_returned [OF tr, of m ccs c] ml by simp
  have a: "used_tokens (used_characters (fst (snd (run_calls character_only_call c ccs ! m))))
         = result_tokens (fst (run_calls character_only_call c ccs ! m))"
    using m(3)
      tracks_usedD(3) [OF tr, of "state_before character_only_call c ccs m" "ccs ! m"]
    by (simp add: nth)
  show "\<exists>m. i < m \<and> m \<le> j \<and>
       ResetNotice \<in> set (snd (snd (run_calls character_only_call c ccs ! m))) \<and>
       character_call_eligible (state_before character_only_call c ccs m) (ccs ! m)
         \<subseteq> used_tokens (used_characters (state_before character_only_call c ccs m)) \<and>
       used_tokens (used_characters (state_before character_only_call c ccs m))
         \<subseteq> used_tokens (used_characters c) \<union>
            (\<Union>k<m. result_tokens (fst (run_calls character_only_call c ccs ! k))) \<and>
       used_tokens (used_characters (fst (snd (run_calls character_only_call c ccs ! m))))
         = result_tokens (fst (run_calls character_only_call c ccs ! m))"
    using m e u a by blast
qed

text \<open>
  The spec's scenario: a pool of two and \<open>min_count = max_count = 2\<close>. The first call
  returns both tokens, the second finds nothing available, resets and returns both again.
\<close>

lemma run_two_artist_calls:
  "run_calls artist_only_call scenario_artist_selector two_artist_calls =
     [(Inr [(''ta'', Finite (1 / 2)), (''td'', Finite (31 / 50))],
       scenario_artist_selector\<lparr>used_artists := Some {''ta'', ''td''}\<rparr>,
       [OnlyReport 5 2 2 2 2]),
      (Inr [(''ta'', Finite (1 / 2)), (''td'', Finite (31 / 50))],
       scenario_artist_selector\<lparr>used_artists := Some {''ta'', ''td''}\<rparr>,
       [ResetNotice, OnlyReport 5 2 2 2 2])]"
  by code_simp

lemma run_two_character_calls:
  "run_calls character_only_call scenario_character_selector two_character_calls =
     [(Inr [(''tp'', Finite (1 / 2), [''hat'', ''cape'']), (''tq'', Finite (31 / 50), [])],
       scenario_character_selector\<lparr>used_characters := Some {''tp'', ''tq''}\<rparr>,
       [OnlyReport 3 2 2 2 2]),
      (Inr [(''tp'', Finite (1 / 2), [''hat'', ''cape'']), (''tq'', Finite (31 / 50), [])],
       scenario_character_selector\<lparr>used_characters := Some {''tp'', ''tq''}\<rparr>,
       [ResetNotice, OnlyReport 3 2 2 2 2])]"
  by code_simp

theorem only_mode_no_repeat_until_exhausted_witness:
  "(0 < Suc 0 \<and> Suc 0 < length two_artist_calls \<and>
    ''ta'' \<in> result_tokens (fst (run_calls artist_only_call scenario_artist_selector
                                    two_artist_calls ! 0)) \<and>
    ''ta'' \<in> result_tokens (fst (run_calls artist_only_call scenario_artist_selector
                                    two_artist_calls ! Suc 0))) \<and>
   (\<exists>m. 0 < m \<and> m \<le> Suc 0 \<and>
      ResetNotice \<in> set (snd (snd (run_calls artist_only_call scenario_artist_selector
                                      two_artist_calls ! m))) \<and>
      artist_call_eligible
        (state_before artist_only_call scenario_artist_selector two_artist_calls m)
        (two_artist_calls ! m)
        \<subseteq> used_tokens (used_artists
             (state_before artist_only_call scenario_artist_selector two_artist_calls m))) \<and>
   ResetNotice \<in> set (snd (snd (run_calls artist_only_call scenario_artist_selector
                                   two_artist_calls ! Suc 0))) \<and>
   (Suc 0 < length two_character_calls \<and>
    ''tq'' \<in> result_tokens (fst (run_calls character_only_call scenario_character_selector
                                    two_character_calls ! 0)) \<and>
    ''tq'' \<in> result_tokens (fst (run_calls character_only_call scenario_character_selector
                                    two_character_calls ! Suc 0))) \<and>
   (\<exists>m. 0 < m \<and> m \<le> Suc 0 \<and>
      ResetNotice \<in> set (snd (snd (run_calls character_only_call scenario_character_selector
                                      two_character_calls ! m))))"
proof -
  have ha: "0 < Suc 0 \<and> Suc 0 < length two_artist_calls \<and>
    ''ta'' \<in> result_tokens (fst (run_calls artist_only_call scenario_artist_selector
                                    two_artist_calls ! 0)) \<and>
    ''ta'' \<in> result_tokens (fst (run_calls artist_only_call scenario_artist_selector
                                    two_artist_calls ! Suc 0))"
    by (simp add: run_two_artist_calls result_tokens_def) (simp add: two_artist_calls_def)
  have hc: "0 < Suc 0 \<and> Suc 0 < length two_character_calls \<and>
    ''tq'' \<in> result_tokens (fst (run_calls character_only_call scenario_character_selector
                                    two_character_calls ! 0)) \<and>
    ''tq'' \<in> result_tokens (fst (run_calls character_only_call scenario_character_selector
                                    two_character_calls ! Suc 0))"
    by (simp add: run_two_character_calls result_tokens_def)
       (simp add: two_character_calls_def)
  note a = only_mode_no_repeat_until_exhausted [where i = 0 and j = "Suc 0"
      and cs = two_artist_calls and s = scenario_artist_selector and t = "''ta''",
      THEN conjunct1, THEN mp, OF ha]
  note c = only_mode_no_repeat_until_exhausted [where i = 0 and j = "Suc 0"
      and ccs = two_character_calls and c = scenario_character_selector and t = "''tq''",
      THEN conjunct2, THEN mp, OF hc]
  have r: "ResetNotice \<in> set (snd (snd (run_calls artist_only_call scenario_artist_selector
                                   two_artist_calls ! Suc 0)))"
    by (simp add: run_two_artist_calls)
  show ?thesis using a c ha hc r by blast
qed

end
